theory Spec2Isabelle
  imports Main "HOL-Library.Word"
begin

section \<open>Text primitives of the Python runtime\<close>

text \<open>
  The program is a Python script (\<^verbatim>\<open>src/autosit.py\<close>). Python strings are modelled as
  \<^typ>\<open>string\<close>; every character the program itself produces is ASCII. The helpers below
  are the pieces of \<^verbatim>\<open>str\<close> that the script and the \<^verbatim>\<open>ipaddress\<close> module
  of the standard library rely on.
\<close>

definition newline :: char where
  "newline = CHR 0x0A"

text \<open>\<^verbatim>\<open>c.isascii() and c.isdigit()\<close> for one character.\<close>

definition isdigit :: "char \<Rightarrow> bool" where
  "isdigit c = (48 \<le> (of_char c :: nat) \<and> (of_char c :: nat) \<le> 57)"

definition digit_val :: "char \<Rightarrow> nat" where
  "digit_val c = of_char c - 48"

definition digit_char :: "nat \<Rightarrow> char" where
  "digit_char d = ''0123456789'' ! d"

text \<open>\<^verbatim>\<open>int(s, 10)\<close> on a string of decimal digits.\<close>

definition int10 :: "string \<Rightarrow> nat" where
  "int10 s = fold (\<lambda>c acc. acc * 10 + digit_val c) s 0"

text \<open>\<^verbatim>\<open>str(n)\<close> for a non-negative integer.\<close>

fun str_nat :: "nat \<Rightarrow> string" where
  "str_nat n = (if n < 10 then [digit_char n] else str_nat (n div 10) @ [digit_char (n mod 10)])"

declare str_nat.simps [simp del]

text \<open>\<^verbatim>\<open>s.split(sep)\<close> for a one-character separator.\<close>

fun split_on :: "char \<Rightarrow> string \<Rightarrow> string list" where
  "split_on sep [] = [[]]"
| "split_on sep (c # cs) =
     (if c = sep then [] # split_on sep cs
      else (case split_on sep cs of
              [] \<Rightarrow> [[c]]
            | piece # pieces \<Rightarrow> (c # piece) # pieces))"

text \<open>\<^verbatim>\<open>sep.join(pieces)\<close>.\<close>

fun join :: "string \<Rightarrow> string list \<Rightarrow> string" where
  "join sep [] = []"
| "join sep [p] = p"
| "join sep (p # q # ps) = p @ sep @ join sep (q # ps)"

text \<open>
  \<^verbatim>\<open>fp.readline()\<close> on a file opened in text mode: the characters up to and
  \<^emph>\<open>including\<close> the first newline, or everything that is left when there is none
  (the empty string at end of file). The second component is the unread remainder.
\<close>

fun readline :: "string \<Rightarrow> string \<times> string" where
  "readline [] = ([], [])"
| "readline (c # cs) =
     (if c = newline then ([c], cs)
      else (case readline cs of (line, rest) \<Rightarrow> (c # line, rest)))"


section \<open>IPv4 addresses (\<^verbatim>\<open>ipaddress.IPv4Address\<close>)\<close>

text \<open>
  An \<^verbatim>\<open>IPv4Address\<close> object holds one 32-bit integer; two addresses are equal when
  their integers are. Construction from text is the strict parser of the standard library
  (\<^verbatim>\<open>IPv4Address.__init__\<close>, \<^verbatim>\<open>_ip_int_from_string\<close>, \<^verbatim>\<open>_parse_octet\<close>):
  \<open>None\<close> stands for \<^verbatim>\<open>AddressValueError\<close>.
\<close>

type_synonym ipv4 = "32 word"

definition parse_octet :: "string \<Rightarrow> nat option" where
  "parse_octet octet_str =
     (if octet_str = [] then None
      else if \<not> list_all isdigit octet_str then None
      else if length octet_str > 3 then None
      else if octet_str \<noteq> ''0'' \<and> hd octet_str = CHR ''0'' then None
      else (let octet_int = int10 octet_str
            in if octet_int > 255 then None else Some octet_int))"

text \<open>\<^verbatim>\<open>int.from_bytes(octets, 'big')\<close>.\<close>

definition from_bytes :: "nat list \<Rightarrow> ipv4" where
  "from_bytes octets = word_of_nat (fold (\<lambda>b acc. acc * 256 + b) octets 0)"

text \<open>\<^verbatim>\<open>ip_int.to_bytes(4, 'big')\<close>.\<close>

definition to_bytes :: "ipv4 \<Rightarrow> nat list" where
  "to_bytes ip =
     [unat ip div 16777216 mod 256, unat ip div 65536 mod 256, unat ip div 256 mod 256,
      unat ip mod 256]"

fun sequence_opt :: "'a option list \<Rightarrow> 'a list option" where
  "sequence_opt [] = Some []"
| "sequence_opt (None # _) = None"
| "sequence_opt (Some x # xs) =
     (case sequence_opt xs of None \<Rightarrow> None | Some ys \<Rightarrow> Some (x # ys))"

definition IPv4Address :: "string \<Rightarrow> ipv4 option" where
  "IPv4Address address =
     (if CHR ''/'' \<in> set address then None
      else if address = [] then None
      else (let octets = split_on CHR ''.'' address
            in if length octets \<noteq> 4 then None
               else (case sequence_opt (map parse_octet octets) of
                       None \<Rightarrow> None
                     | Some bs \<Rightarrow> Some (from_bytes bs))))"

text \<open>\<^verbatim>\<open>str(ip)\<close>: the dotted quad.\<close>

definition str_ipv4 :: "ipv4 \<Rightarrow> string" where
  "str_ipv4 ip = join ''.'' (map str_nat (to_bytes ip))"


section \<open>The outside world\<close>

text \<open>
  Everything the script touches outside its own variables is collected in one record, the
  world. The DNS-over-HTTPS service, the exit status of the commands and the permission to
  write a file are answers of the environment; the files and the log of what was done are
  changed by the run.
  \<^item> \<open>doh\<close> is the reply of the service to the query for a hostname; within one run
    the reply is taken to depend on the hostname alone.
  \<^item> \<open>returncode\<close> is the exit status of a command, given everything done before it: the
    operating system is any deterministic function of its history.
  \<^item> \<open>writable\<close> says whether \<^verbatim>\<open>open(path, "w")\<close> succeeds.
  \<^item> \<open>files\<close> maps a path to the text that \<^verbatim>\<open>open(path, "r")\<close> presents (decoded,
    with newlines translated to the one newline character); \<open>None\<close> when there is no file.
  \<^item> \<open>trace\<close> is the log of the queries, commands, reads and writes so far.

  Progress messages printed to standard output are not part of the model, and a command's
  executable is taken to exist: a command fails by a non-zero exit status.
\<close>

text \<open>
  The body of a DoH reply: the integer \<^verbatim>\<open>"Status"\<close> and, when the key is present,
  the list \<^verbatim>\<open>"Answer"\<close>, each record reduced to its \<^verbatim>\<open>"data"\<close> string. A reply is
  a failure of the transport or an HTTP status with the body, \<open>None\<close> when the body is not
  JSON.
\<close>

record dns_json =
  Status :: int
  Answer :: "string list option"

datatype doh_reply =
    TransportError
  | Response nat "dns_json option"

datatype event =
    DohQuery string
  | Exec "string list"
  | ReadFile string
  | WriteFile string string

datatype error =
    RequestException
  | HTTPError nat
  | JSONDecodeError
  | RuntimeError int
  | KeyError
  | IndexError
  | AddressValueError
  | FileNotFoundError
  | PermissionError
  | CalledProcessError int "string list"

record world =
  doh :: "string \<Rightarrow> doh_reply"
  returncode :: "event list \<Rightarrow> string list \<Rightarrow> int"
  writable :: "string \<Rightarrow> bool"
  files :: "string \<rightharpoonup> string"
  trace :: "event list"

text \<open>
  A piece of the script is a function from the world to the world after it, together with
  either the value it returns or the exception it raises. An exception skips the rest of
  every enclosing sequence: nothing in the script catches one.
\<close>

type_synonym 'a prog = "world \<Rightarrow> (error + 'a) \<times> world"

definition return :: "'a \<Rightarrow> 'a prog" where
  "return x w = (Inr x, w)"

definition bind :: "'a prog \<Rightarrow> ('a \<Rightarrow> 'b prog) \<Rightarrow> 'b prog" where
  "bind m f w = (case m w of (Inl e, w') \<Rightarrow> (Inl e, w') | (Inr x, w') \<Rightarrow> f x w')"

text \<open>A sequence of statements, run in order.\<close>

fun block :: "unit prog list \<Rightarrow> unit prog" where
  "block [] = return ()"
| "block (stmt # stmts) = bind stmt (\<lambda>_. block stmts)"

text \<open>
  \<^verbatim>\<open>subprocess.run(argv, check=check)\<close>: the command is run and its exit status
  returned; with \<^verbatim>\<open>check=True\<close> a non-zero status raises
  \<^verbatim>\<open>CalledProcessError\<close>.
\<close>

definition subprocess_run :: "bool \<Rightarrow> string list \<Rightarrow> int prog" where
  "subprocess_run check argv w =
     (let rc = returncode w (trace w) argv;
          w' = w\<lparr>trace := trace w @ [Exec argv]\<rparr>
      in if check \<and> rc \<noteq> 0 then (Inl (CalledProcessError rc argv), w') else (Inr rc, w'))"

text \<open>The same as a statement, the returned status dropped.\<close>

definition run_stmt :: "bool \<Rightarrow> string list \<Rightarrow> unit prog" where
  "run_stmt check argv = bind (subprocess_run check argv) (\<lambda>_. return ())"

text \<open>\<^verbatim>\<open>open(path, "r")\<close> and the text of the file.\<close>

definition open_read :: "string \<Rightarrow> string prog" where
  "open_read path w =
     (let w' = w\<lparr>trace := trace w @ [ReadFile path]\<rparr>
      in case files w path of
           None \<Rightarrow> (Inl FileNotFoundError, w')
         | Some text \<Rightarrow> (Inr text, w'))"

text \<open>\<^verbatim>\<open>ipaddress.IPv4Address(s)\<close> as a step that may raise.\<close>

definition IPv4Address_or_raise :: "string \<Rightarrow> ipv4 prog" where
  "IPv4Address_or_raise s w =
     (case IPv4Address s of None \<Rightarrow> (Inl AddressValueError, w) | Some ip \<Rightarrow> (Inr ip, w))"


section \<open>The script\<close>

text \<open>
  The functions of \<^verbatim>\<open>src/autosit.py\<close> under their own names. The path of the state
  file is the f-string \<^verbatim>\<open>/tmp/autosit_{tun_name}\<close> of lines 31 and 44.
\<close>

definition state_path :: "string \<Rightarrow> string" where
  "state_path tun_name = ''/tmp/autosit_'' @ tun_name"

text \<open>
  Lines 11 to 22: the query, \<^verbatim>\<open>raise_for_status\<close>, the check of
  \<^verbatim>\<open>"Status"\<close>, and the first answer's \<^verbatim>\<open>"data"\<close> parsed as an address.
\<close>

definition look_up_ip_addr :: "string \<Rightarrow> ipv4 prog" where
  "look_up_ip_addr hostname w =
     (let w' = w\<lparr>trace := trace w @ [DohQuery hostname]\<rparr>
      in case doh w hostname of
           TransportError \<Rightarrow> (Inl RequestException, w')
         | Response status_code body \<Rightarrow>
             if 400 \<le> status_code \<and> status_code < 600 then (Inl (HTTPError status_code), w')
             else (case body of
                     None \<Rightarrow> (Inl JSONDecodeError, w')
                   | Some response_json \<Rightarrow>
                       if Status response_json \<noteq> 0
                       then (Inl (RuntimeError (Status response_json)), w')
                       else (case Answer response_json of
                               None \<Rightarrow> (Inl KeyError, w')
                             | Some [] \<Rightarrow> (Inl IndexError, w')
                             | Some (data # _) \<Rightarrow> IPv4Address_or_raise data w')))"

text \<open>
  Lines 24 to 40: the existence probe, then the two lines of the state file, each passed to
  \<^verbatim>\<open>IPv4Address\<close> as \<^verbatim>\<open>readline\<close> returned it, then the comparison.
\<close>

definition needs_interface_recreation :: "ipv4 \<Rightarrow> ipv4 \<Rightarrow> string \<Rightarrow> bool prog" where
  "needs_interface_recreation local_ip remote_ip tun_name =
     bind (subprocess_run False [''ip'', ''link'', ''show'', ''dev'', tun_name]) (\<lambda>rc.
       if \<not> rc = 0 then return True
       else
         bind (open_read (state_path tun_name)) (\<lambda>fp.
         case readline fp of (line1, fp1) \<Rightarrow>
         bind (IPv4Address_or_raise line1) (\<lambda>old_local_ip.
         case readline fp1 of (line2, fp2) \<Rightarrow>
         bind (IPv4Address_or_raise line2) (\<lambda>old_remote_ip.
           if local_ip \<noteq> old_local_ip \<or> remote_ip \<noteq> old_remote_ip then return True
           else return False))))"

text \<open>Lines 42 to 45: the two addresses, a newline between them, no newline at the end.\<close>

definition save_tunnel_addrs :: "ipv4 \<Rightarrow> ipv4 \<Rightarrow> string \<Rightarrow> unit prog" where
  "save_tunnel_addrs local_ip remote_ip tun_name w =
     (let path = state_path tun_name;
          text = str_ipv4 local_ip @ [newline] @ str_ipv4 remote_ip
      in if \<not> writable w path then (Inl PermissionError, w)
         else (Inr (), w\<lparr>files := (files w)(path \<mapsto> text),
                          trace := trace w @ [WriteFile path text]\<rparr>))"

record args =
  local_hostname :: string
  remote_hostname :: string
  tun_name :: string
  with_prefix :: "string list"
  with_ipv4_route :: "string list option"
  with_ipv6_route :: "string list option"
  ipv4_mode :: string
  ipv6_mode :: string

text \<open>
  The parsed command line (lines 50 to 64). A route is kept as its text
  \<^verbatim>\<open>str(route)\<close>, which is all the script uses of it; an option that was not given
  is \<open>None\<close>. The modes are the strings the script compares them with.

  Lines 72 to 131: both lookups, the drift check, and when it says yes the save followed by
  the commands, each with its \<^verbatim>\<open>check\<close> flag. A route option that was not given,
  or given empty, adds nothing.
\<close>

definition main :: "args \<Rightarrow> int prog" where
  "main args =
     bind (look_up_ip_addr (local_hostname args)) (\<lambda>local_host_ip.
     bind (look_up_ip_addr (remote_hostname args)) (\<lambda>remote_host_ip.
     bind (needs_interface_recreation local_host_ip remote_host_ip (tun_name args)) (\<lambda>needed.
     bind (if needed then
             block (
               [save_tunnel_addrs local_host_ip remote_host_ip (tun_name args),
                run_stmt False [''ip'', ''link'', ''del'', tun_name args],
                run_stmt True [''ip'', ''tunnel'', ''add'', tun_name args, ''mode'', ''sit'',
                               ''remote'', str_ipv4 remote_host_ip,
                               ''local'', str_ipv4 local_host_ip,
                               ''mode'', ''any'', ''ttl'', ''255''],
                run_stmt True [''ip'', ''link'', ''set'', ''dev'', tun_name args, ''up'']]
               @ map (\<lambda>prefix. run_stmt True [''ip'', ''addr'', ''add'', prefix,
                                                ''dev'', tun_name args])
                     (with_prefix args)
               @ (case with_ipv4_route args of
                    None \<Rightarrow> []
                  | Some routes \<Rightarrow>
                      map (\<lambda>route. run_stmt True [''ip'', ''route'', ''add'', route,
                                                    ''dev'', tun_name args]) routes)
               @ (case with_ipv6_route args of
                    None \<Rightarrow> []
                  | Some routes \<Rightarrow>
                      map (\<lambda>route. run_stmt True [''ip'', ''route'', ''add'', route,
                                                    ''dev'', tun_name args]) routes)
               @ (if ipv4_mode args = ''nat'' then
                    [run_stmt True [''iptables'', ''-t'', ''nat'', ''-A'', ''POSTROUTING'',
                                    ''-o'', tun_name args, ''-j'', ''MASQUERADE'']]
                  else if ipv4_mode args = ''forward'' then
                    [run_stmt True [''sysctl'', ''-w'', ''net.ipv4.ip_forward=1''],
                     run_stmt True [''iptables'', ''-A'', ''FORWARD'', ''-i'', tun_name args,
                                    ''-j'', ''ACCEPT''],
                     run_stmt True [''iptables'', ''-A'', ''FORWARD'', ''-o'', tun_name args,
                                    ''-j'', ''ACCEPT'']]
                  else [])
               @ (if ipv6_mode args = ''nat'' then
                    [run_stmt True [''ip6tables'', ''-t'', ''nat'', ''-A'', ''POSTROUTING'',
                                    ''-o'', tun_name args, ''-j'', ''MASQUERADE'']]
                  else if ipv6_mode args = ''forward'' then
                    [run_stmt True [''sysctl'', ''-w'', ''net.ipv6.conf.all.forwarding=1''],
                     run_stmt True [''iptables'', ''-A'', ''FORWARD'', ''-i'', tun_name args,
                                    ''-j'', ''ACCEPT''],
                     run_stmt True [''iptables'', ''-A'', ''FORWARD'', ''-o'', tun_name args,
                                    ''-j'', ''ACCEPT'']]
                  else []))
           else return ())
       (\<lambda>_. return 0))))"


section \<open>Names for what the script issues\<close>

text \<open>
  The command lines of \<^verbatim>\<open>main\<close> and of the drift check, named once so that the
  statements below can speak about them. \<open>checked_cmds\<close> is the sequence of commands that
  \<^verbatim>\<open>main\<close> runs with \<^verbatim>\<open>check=True\<close>, in program order.
\<close>

definition probe_cmd :: "string \<Rightarrow> string list" where
  "probe_cmd tun = [''ip'', ''link'', ''show'', ''dev'', tun]"

definition teardown_cmd :: "string \<Rightarrow> string list" where
  "teardown_cmd tun = [''ip'', ''link'', ''del'', tun]"

definition create_cmd :: "string \<Rightarrow> ipv4 \<Rightarrow> ipv4 \<Rightarrow> string list" where
  "create_cmd tun local_ip remote_ip =
     [''ip'', ''tunnel'', ''add'', tun, ''mode'', ''sit'', ''remote'', str_ipv4 remote_ip,
      ''local'', str_ipv4 local_ip, ''mode'', ''any'', ''ttl'', ''255'']"

definition up_cmd :: "string \<Rightarrow> string list" where
  "up_cmd tun = [''ip'', ''link'', ''set'', ''dev'', tun, ''up'']"

definition addr_cmd :: "string \<Rightarrow> string \<Rightarrow> string list" where
  "addr_cmd tun prefix = [''ip'', ''addr'', ''add'', prefix, ''dev'', tun]"

definition route_cmd :: "string \<Rightarrow> string \<Rightarrow> string list" where
  "route_cmd tun route = [''ip'', ''route'', ''add'', route, ''dev'', tun]"

definition routes_of :: "string list option \<Rightarrow> string list" where
  "routes_of opt = (case opt of None \<Rightarrow> [] | Some routes \<Rightarrow> routes)"

definition ipv4_policy_cmds :: "string \<Rightarrow> string \<Rightarrow> string list list" where
  "ipv4_policy_cmds mode tun =
     (if mode = ''nat'' then
        [[''iptables'', ''-t'', ''nat'', ''-A'', ''POSTROUTING'', ''-o'', tun,
          ''-j'', ''MASQUERADE'']]
      else if mode = ''forward'' then
        [[''sysctl'', ''-w'', ''net.ipv4.ip_forward=1''],
         [''iptables'', ''-A'', ''FORWARD'', ''-i'', tun, ''-j'', ''ACCEPT''],
         [''iptables'', ''-A'', ''FORWARD'', ''-o'', tun, ''-j'', ''ACCEPT'']]
      else [])"

definition ipv6_policy_cmds :: "string \<Rightarrow> string \<Rightarrow> string list list" where
  "ipv6_policy_cmds mode tun =
     (if mode = ''nat'' then
        [[''ip6tables'', ''-t'', ''nat'', ''-A'', ''POSTROUTING'', ''-o'', tun,
          ''-j'', ''MASQUERADE'']]
      else if mode = ''forward'' then
        [[''sysctl'', ''-w'', ''net.ipv6.conf.all.forwarding=1''],
         [''iptables'', ''-A'', ''FORWARD'', ''-i'', tun, ''-j'', ''ACCEPT''],
         [''iptables'', ''-A'', ''FORWARD'', ''-o'', tun, ''-j'', ''ACCEPT'']]
      else [])"

text \<open>
  The address and route commands of one reconciliation, in program order: the prefixes as
  the caller gave them, then the IPv4 routes, then the IPv6 routes.
\<close>

definition addr_route_cmds :: "args \<Rightarrow> string list list" where
  "addr_route_cmds args =
     map (addr_cmd (tun_name args)) (with_prefix args)
     @ map (route_cmd (tun_name args)) (routes_of (with_ipv4_route args))
     @ map (route_cmd (tun_name args)) (routes_of (with_ipv6_route args))"

definition checked_cmds :: "args \<Rightarrow> ipv4 \<Rightarrow> ipv4 \<Rightarrow> string list list" where
  "checked_cmds args local_ip remote_ip =
     [create_cmd (tun_name args) local_ip remote_ip, up_cmd (tun_name args)]
     @ addr_route_cmds args
     @ ipv4_policy_cmds (ipv4_mode args) (tun_name args)
     @ ipv6_policy_cmds (ipv6_mode args) (tun_name args)"

text \<open>
  The branch of \<^verbatim>\<open>main\<close> taken when the drift check says yes (lines 79 to 126), as
  one sequence: the save, the unchecked teardown, then the checked commands.
\<close>

definition reconcile :: "args \<Rightarrow> ipv4 \<Rightarrow> ipv4 \<Rightarrow> unit prog" where
  "reconcile args local_ip remote_ip =
     block (save_tunnel_addrs local_ip remote_ip (tun_name args)
            # run_stmt False (teardown_cmd (tun_name args))
            # map (run_stmt True) (checked_cmds args local_ip remote_ip))"

text \<open>The text that \<^verbatim>\<open>save_tunnel_addrs\<close> writes for a pair of addresses.\<close>

definition record_text :: "ipv4 \<Rightarrow> ipv4 \<Rightarrow> string" where
  "record_text local_ip remote_ip = str_ipv4 local_ip @ [newline] @ str_ipv4 remote_ip"

text \<open>
  An event changes the network configuration when it is a command other than the
  existence probe \<^verbatim>\<open>ip link show\<close>.
\<close>

fun mutating :: "event \<Rightarrow> bool" where
  "mutating (Exec argv) = (take 3 argv \<noteq> [''ip'', ''link'', ''show''])"
| "mutating (DohQuery _) = False"
| "mutating (ReadFile _) = False"
| "mutating (WriteFile _ _) = False"


section \<open>Two worlds that answer alike\<close>

text \<open>
  Two worlds agree on a path when their commands exit alike, the file at the path has the
  same content and the same permission, and the same has been done so far.
\<close>

definition agree :: "string \<Rightarrow> world \<Rightarrow> world \<Rightarrow> bool" where
  "agree path w1 w2 =
     (returncode w1 = returncode w2 \<and> writable w1 path = writable w2 path
      \<and> files w1 path = files w2 path \<and> trace w1 = trace w2)"


section \<open>Example runs\<close>

text \<open>
  One concrete setting used to exercise the statements below: two hostnames that resolve
  and some that do not (the service cannot be reached, it answers with HTTP status 502, it
  reports the DNS status 2, it has no answer record, its first answer is an alias and not an
  address), a tunnel named \<^verbatim>\<open>autosit\<close> with two prefixes and one route per family, and an
  operating system in which the interface exists from the moment it has been brought up.
\<close>

definition answer :: "string \<Rightarrow> doh_reply" where
  "answer data = Response 200 (Some \<lparr>Status = 0, Answer = Some [data]\<rparr>)"

definition example_doh :: "string \<Rightarrow> doh_reply" where
  "example_doh hostname =
     (if hostname = ''home.example.net'' then answer ''10.0.0.1''
      else if hostname = ''peer.example.net'' then answer ''10.0.0.2''
      else if hostname = ''unreachable.example.net'' then TransportError
      else if hostname = ''gateway.example.net'' then Response 502 None
      else if hostname = ''servfail.example.net''
        then Response 200 (Some \<lparr>Status = 2, Answer = None\<rparr>)
      else if hostname = ''empty.example.net''
        then Response 200 (Some \<lparr>Status = 0, Answer = Some []\<rparr>)
      else if hostname = ''alias.example.net''
        then Response 200 (Some \<lparr>Status = 0,
                                  Answer = Some [''home.example.net.'', ''10.0.0.1'']\<rparr>)
      else Response 200 (Some \<lparr>Status = 3, Answer = None\<rparr>))"

definition example_args :: args where
  "example_args =
     \<lparr>local_hostname = ''home.example.net'', remote_hostname = ''peer.example.net'',
      tun_name = ''autosit'',
      with_prefix = [''2001:db8:1::2/64'', ''2001:db8:2::2/64''],
      with_ipv4_route = Some [''192.0.2.0/24''],
      with_ipv6_route = Some [''2001:db8:ff::/48''],
      ipv4_mode = ''forward'', ipv6_mode = ''forward''\<rparr>"

definition example_returncode :: "event list \<Rightarrow> string list \<Rightarrow> int" where
  "example_returncode history argv =
     (if argv = probe_cmd ''autosit'' \<and> Exec (up_cmd ''autosit'') \<notin> set history then 1
      else 0)"

definition example_world :: world where
  "example_world =
     \<lparr>doh = example_doh, returncode = example_returncode, writable = (\<lambda>_. True),
      files = Map.empty, trace = []\<rparr>"

text \<open>The example world after each of the first three steps of a run.\<close>

definition example_world_1 :: world where
  "example_world_1 = example_world\<lparr>trace := [DohQuery ''home.example.net'']\<rparr>"

definition example_world_2 :: world where
  "example_world_2 =
     example_world\<lparr>trace := [DohQuery ''home.example.net'', DohQuery ''peer.example.net'']\<rparr>"

definition example_world_3 :: world where
  "example_world_3 =
     example_world\<lparr>trace := [DohQuery ''home.example.net'', DohQuery ''peer.example.net'',
                             Exec (probe_cmd ''autosit'')]\<rparr>"

text \<open>
  The same setting with an operating system in which the interface does not exist, the
  teardown therefore fails, and the second prefix is refused.
\<close>

definition failing_returncode :: "event list \<Rightarrow> string list \<Rightarrow> int" where
  "failing_returncode history argv =
     (if argv = probe_cmd ''autosit'' then 1
      else if argv = teardown_cmd ''autosit'' then 1
      else if argv = addr_cmd ''autosit'' ''2001:db8:2::2/64'' then 2
      else 0)"

definition failing_world :: world where
  "failing_world = example_world\<lparr>returncode := failing_returncode\<rparr>"

definition failing_world_1 :: world where
  "failing_world_1 = failing_world\<lparr>trace := [DohQuery ''home.example.net'']\<rparr>"

definition failing_world_2 :: world where
  "failing_world_2 =
     failing_world\<lparr>trace := [DohQuery ''home.example.net'', DohQuery ''peer.example.net'']\<rparr>"

definition failing_world_3 :: world where
  "failing_world_3 =
     failing_world\<lparr>trace := [DohQuery ''home.example.net'', DohQuery ''peer.example.net'',
                             Exec (probe_cmd ''autosit'')]\<rparr>"

text \<open>
  A second world that answers the run of the example alike and differs elsewhere: another
  hostname resolves differently and another file exists.
\<close>

definition other_world :: world where
  "other_world =
     example_world
       \<lparr>doh := (\<lambda>hostname. if hostname = ''elsewhere.example.net'' then answer ''192.0.2.7''
                           else example_doh hostname),
        files := [''/etc/hostname'' \<mapsto> ''gateway'']\<rparr>"

text \<open>The world that the first run of the example leaves behind.\<close>

definition settled_world :: world where
  "settled_world =
     example_world
       \<lparr>files := [''/tmp/autosit_autosit'' \<mapsto> ''10.0.0.1'' @ [newline] @ ''10.0.0.2''],
        trace :=
          [DohQuery ''home.example.net'', DohQuery ''peer.example.net'',
           Exec [''ip'', ''link'', ''show'', ''dev'', ''autosit''],
           WriteFile ''/tmp/autosit_autosit'' (''10.0.0.1'' @ [newline] @ ''10.0.0.2''),
           Exec [''ip'', ''link'', ''del'', ''autosit''],
           Exec [''ip'', ''tunnel'', ''add'', ''autosit'', ''mode'', ''sit'', ''remote'',
                 ''10.0.0.2'', ''local'', ''10.0.0.1'', ''mode'', ''any'', ''ttl'', ''255''],
           Exec [''ip'', ''link'', ''set'', ''dev'', ''autosit'', ''up''],
           Exec [''ip'', ''addr'', ''add'', ''2001:db8:1::2/64'', ''dev'', ''autosit''],
           Exec [''ip'', ''addr'', ''add'', ''2001:db8:2::2/64'', ''dev'', ''autosit''],
           Exec [''ip'', ''route'', ''add'', ''192.0.2.0/24'', ''dev'', ''autosit''],
           Exec [''ip'', ''route'', ''add'', ''2001:db8:ff::/48'', ''dev'', ''autosit''],
           Exec [''sysctl'', ''-w'', ''net.ipv4.ip_forward=1''],
           Exec [''iptables'', ''-A'', ''FORWARD'', ''-i'', ''autosit'', ''-j'', ''ACCEPT''],
           Exec [''iptables'', ''-A'', ''FORWARD'', ''-o'', ''autosit'', ''-j'', ''ACCEPT''],
           Exec [''sysctl'', ''-w'', ''net.ipv6.conf.all.forwarding=1''],
           Exec [''iptables'', ''-A'', ''FORWARD'', ''-i'', ''autosit'', ''-j'', ''ACCEPT''],
           Exec [''iptables'', ''-A'', ''FORWARD'', ''-o'', ''autosit'', ''-j'', ''ACCEPT'']]\<rparr>"

text \<open>
  Two worlds in which the interface exists from the start: one without a state file, one
  whose state file holds something that is not a record.
\<close>

definition orphan_world :: world where
  "orphan_world = example_world\<lparr>returncode := (\<lambda>history argv. 0)\<rparr>"

definition garbled_world :: world where
  "garbled_world = orphan_world\<lparr>files := [''/tmp/autosit_autosit'' \<mapsto> ''not a record'']\<rparr>"


section \<open>Sequencing\<close>

lemma bind_Inr: "m w = (Inr x, w') \<Longrightarrow> bind m f w = f x w'"
  by (simp add: bind_def)

lemma bind_Inl: "m w = (Inl e, w') \<Longrightarrow> bind m f w = (Inl e, w')"
  by (simp add: bind_def)

lemma run_stmt_eq:
  "run_stmt check argv w =
     (if check \<and> returncode w (trace w) argv \<noteq> 0
      then Inl (CalledProcessError (returncode w (trace w) argv) argv) else Inr (),
      w\<lparr>trace := trace w @ [Exec argv]\<rparr>)"
  by (simp add: run_stmt_def subprocess_run_def bind_def return_def Let_def)

text \<open>A run of checked commands: all succeed, or it stops at the first that fails.\<close>

lemma checked_block:
  "(fst (block (map (run_stmt True) cs) w) = Inr ()
      \<and> snd (block (map (run_stmt True) cs) w) = w\<lparr>trace := trace w @ map Exec cs\<rparr>
      \<and> (\<forall>done c todo. cs = done @ c # todo \<longrightarrow> returncode w (trace w @ map Exec done) c = 0))
   \<or> (\<exists>done c todo. cs = done @ c # todo
         \<and> returncode w (trace w @ map Exec done) c \<noteq> 0
         \<and> (\<forall>d c' t. done = d @ c' # t \<longrightarrow> returncode w (trace w @ map Exec d) c' = 0)
         \<and> fst (block (map (run_stmt True) cs) w)
             = Inl (CalledProcessError (returncode w (trace w @ map Exec done) c) c)
         \<and> snd (block (map (run_stmt True) cs) w)
             = w\<lparr>trace := trace w @ map Exec done @ [Exec c]\<rparr>)"
proof (induction cs arbitrary: w)
  case Nil
  then show ?case by (simp add: return_def)
next
  case (Cons a cs)
  let ?w1 = "w\<lparr>trace := trace w @ [Exec a]\<rparr>"
  show ?case
  proof (cases "returncode w (trace w) a = 0")
    case False
    then have "fst (block (map (run_stmt True) (a # cs)) w)
                 = Inl (CalledProcessError (returncode w (trace w) a) a)"
      and "snd (block (map (run_stmt True) (a # cs)) w) = ?w1"
      by (simp_all add: bind_def run_stmt_eq)
    with False have "a # cs = [] @ a # cs
         \<and> returncode w (trace w @ map Exec []) a \<noteq> 0
         \<and> (\<forall>d c' t. [] = d @ c' # t \<longrightarrow> returncode w (trace w @ map Exec d) c' = 0)
         \<and> fst (block (map (run_stmt True) (a # cs)) w)
             = Inl (CalledProcessError (returncode w (trace w @ map Exec []) a) a)
         \<and> snd (block (map (run_stmt True) (a # cs)) w)
             = w\<lparr>trace := trace w @ map Exec [] @ [Exec a]\<rparr>"
      by simp
    then show ?thesis by blast
  next
    case True
    then have step: "block (map (run_stmt True) (a # cs)) w = block (map (run_stmt True) cs) ?w1"
      by (simp add: bind_def run_stmt_eq)
    from Cons.IH [of ?w1] show ?thesis
    proof
      assume ok: "fst (block (map (run_stmt True) cs) ?w1) = Inr ()
        \<and> snd (block (map (run_stmt True) cs) ?w1) = ?w1\<lparr>trace := trace ?w1 @ map Exec cs\<rparr>
        \<and> (\<forall>done c todo. cs = done @ c # todo \<longrightarrow>
              returncode ?w1 (trace ?w1 @ map Exec done) c = 0)"
      have "\<forall>done c todo. a # cs = done @ c # todo \<longrightarrow>
              returncode w (trace w @ map Exec done) c = 0"
      proof (intro allI impI)
        fix "done" c todo
        assume eq: "a # cs = done @ c # todo"
        show "returncode w (trace w @ map Exec done) c = 0"
        proof (cases "done")
          case Nil
          with eq True show ?thesis by simp
        next
          case (Cons d ds)
          with eq have "d = a" "cs = ds @ c # todo" by simp_all
          with ok Cons show ?thesis by simp
        qed
      qed
      with ok step show ?thesis by simp
    next
      assume "\<exists>done c todo. cs = done @ c # todo
         \<and> returncode ?w1 (trace ?w1 @ map Exec done) c \<noteq> 0
         \<and> (\<forall>d c' t. done = d @ c' # t \<longrightarrow> returncode ?w1 (trace ?w1 @ map Exec d) c' = 0)
         \<and> fst (block (map (run_stmt True) cs) ?w1)
             = Inl (CalledProcessError (returncode ?w1 (trace ?w1 @ map Exec done) c) c)
         \<and> snd (block (map (run_stmt True) cs) ?w1)
             = ?w1\<lparr>trace := trace ?w1 @ map Exec done @ [Exec c]\<rparr>"
      then obtain dn c todo where cs: "cs = dn @ c # todo"
        and rc: "returncode w (trace w @ Exec a # map Exec dn) c \<noteq> 0"
        and before: "\<forall>d c' t. dn = d @ c' # t \<longrightarrow>
                       returncode w (trace w @ Exec a # map Exec d) c' = 0"
        and res: "fst (block (map (run_stmt True) cs) ?w1)
             = Inl (CalledProcessError (returncode w (trace w @ Exec a # map Exec dn) c) c)"
        and st: "snd (block (map (run_stmt True) cs) ?w1)
             = w\<lparr>trace := trace w @ Exec a # map Exec dn @ [Exec c]\<rparr>"
        by auto
      have before': "\<forall>d c' t. a # dn = d @ c' # t \<longrightarrow>
                       returncode w (trace w @ map Exec d) c' = 0"
      proof (intro allI impI)
        fix d c' t
        assume eq: "a # dn = d @ c' # t"
        show "returncode w (trace w @ map Exec d) c' = 0"
        proof (cases d)
          case Nil
          with eq True show ?thesis by simp
        next
          case (Cons x xs)
          with eq have "x = a" "dn = xs @ c' # t" by simp_all
          with before Cons show ?thesis by simp
        qed
      qed
      have "a # cs = (a # dn) @ c # todo
         \<and> returncode w (trace w @ map Exec (a # dn)) c \<noteq> 0
         \<and> (\<forall>d c' t. a # dn = d @ c' # t \<longrightarrow> returncode w (trace w @ map Exec d) c' = 0)
         \<and> fst (block (map (run_stmt True) (a # cs)) w)
             = Inl (CalledProcessError (returncode w (trace w @ map Exec (a # dn)) c) c)
         \<and> snd (block (map (run_stmt True) (a # cs)) w)
             = w\<lparr>trace := trace w @ map Exec (a # dn) @ [Exec c]\<rparr>"
        using cs rc res st before' step by simp
      then show ?thesis by blast
    qed
  qed
qed


section \<open>What the address parser accepts\<close>

lemma split_on_not_Nil: "split_on sep s \<noteq> []"
  by (induction s) (auto split: list.splits)

lemma split_on_covers:
  "c \<in> set s \<Longrightarrow> c \<noteq> sep \<Longrightarrow> \<exists>piece \<in> set (split_on sep s). c \<in> set piece"
proof (induction s)
  case Nil
  then show ?case by simp
next
  case (Cons x xs)
  show ?case
  proof (cases "x = sep")
    case True
    with Cons show ?thesis by auto
  next
    case False
    obtain p ps where sp: "split_on sep xs = p # ps"
      using split_on_not_Nil [of sep xs] by (cases "split_on sep xs") auto
    show ?thesis
    proof (cases "c = x")
      case True
      with False sp show ?thesis by simp
    next
      case neq: False
      with Cons.prems have "c \<in> set xs" by simp
      with Cons.IH Cons.prems(2) obtain piece where "piece \<in> set (p # ps)" "c \<in> set piece"
        using sp by auto
      with False sp show ?thesis by auto
    qed
  qed
qed

lemma sequence_opt_Some: "sequence_opt xs = Some ys \<Longrightarrow> None \<notin> set xs"
  by (induction xs arbitrary: ys rule: sequence_opt.induct) (auto split: option.splits)

lemma parse_octet_digits: "parse_octet p = Some n \<Longrightarrow> list_all isdigit p"
  by (auto simp: parse_octet_def Let_def split: if_splits)

text \<open>A text that parses consists of digits and dots only.\<close>

lemma IPv4Address_chars:
  assumes "IPv4Address s = Some ip" and "c \<in> set s"
  shows "c = CHR ''.'' \<or> isdigit c"
proof (cases "c = CHR ''.''")
  case True
  then show ?thesis by simp
next
  case False
  from assms(1) obtain bs
    where seq: "sequence_opt (map parse_octet (split_on CHR ''.'' s)) = Some bs"
    by (auto simp: IPv4Address_def Let_def split: if_splits option.splits)
  from split_on_covers [OF assms(2) False] obtain piece
    where piece: "piece \<in> set (split_on CHR ''.'' s)" "c \<in> set piece" by blast
  from sequence_opt_Some [OF seq] piece(1) have "parse_octet piece \<noteq> None"
    by (metis image_eqI set_map)
  then obtain n where "parse_octet piece = Some n" by auto
  from parse_octet_digits [OF this] piece(2) have "isdigit c"
    by (simp add: list_all_iff)
  then show ?thesis by simp
qed

lemma IPv4Address_no_newline: "IPv4Address s = Some ip \<Longrightarrow> newline \<notin> set s"
proof
  assume a: "IPv4Address s = Some ip" and b: "newline \<in> set s"
  from IPv4Address_chars [OF a b] show False
    by (simp add: newline_def isdigit_def)
qed

lemma IPv4Address_empty: "IPv4Address [] = None"
  by (simp add: IPv4Address_def)

lemma readline_whole: "newline \<notin> set (fst (readline s)) \<Longrightarrow> snd (readline s) = []"
  by (induction s) (auto split: prod.splits)

text \<open>
  No file content gets through both reads of the drift check: a first line that parses
  carries no newline, so it is the whole file, and the second read returns the empty string.
\<close>

lemma load_never_parses:
  "IPv4Address (fst (readline text)) = None \<or>
   IPv4Address (fst (readline (snd (readline text)))) = None"
proof (cases "IPv4Address (fst (readline text))")
  case None
  then show ?thesis by simp
next
  case (Some ip)
  from IPv4Address_no_newline [OF Some] have "snd (readline text) = []"
    by (rule readline_whole)
  then show ?thesis by (simp add: IPv4Address_empty)
qed



section \<open>The text of an address parses back\<close>

lemma digit_cases:
  "d < 10 \<Longrightarrow> d = 0 \<or> d = 1 \<or> d = 2 \<or> d = 3 \<or> d = 4 \<or> d = 5 \<or> d = 6 \<or> d = 7 \<or> d = 8
     \<or> d = (9::nat)"
  by arith

lemma digit_char_props:
  assumes "d < 10"
  shows "isdigit (digit_char d)" and "digit_val (digit_char d) = d"
    and "(digit_char d = CHR ''0'') = (d = 0)"
  using digit_cases [OF assms]
  by (auto simp: digit_char_def isdigit_def digit_val_def)

lemma int10_snoc: "int10 (s @ [c]) = int10 s * 10 + digit_val c"
  by (simp add: int10_def)

lemma str_nat_not_Nil: "str_nat n \<noteq> []"
  by (subst str_nat.simps) simp

lemma str_nat_digits: "list_all isdigit (str_nat n)"
proof (induction n rule: str_nat.induct)
  case (1 n)
  show ?case
  proof (cases "n < 10")
    case True
    then show ?thesis by (subst str_nat.simps) (simp add: digit_char_props)
  next
    case False
    have "n mod 10 < 10" by simp
    with False "1.IH" show ?thesis by (subst str_nat.simps) (simp add: digit_char_props)
  qed
qed

lemma int10_str_nat: "int10 (str_nat n) = n"
proof (induction n rule: str_nat.induct)
  case (1 n)
  show ?case
  proof (cases "n < 10")
    case True
    then show ?thesis by (subst str_nat.simps) (simp add: int10_def digit_char_props)
  next
    case False
    have "n mod 10 < 10" by simp
    with False "1.IH" show ?thesis
      by (subst str_nat.simps) (simp add: int10_snoc digit_char_props)
  qed
qed

lemma str_nat_leading_zero: "hd (str_nat n) = CHR ''0'' \<Longrightarrow> n = 0"
proof (induction n rule: str_nat.induct)
  case (1 n)
  show ?case
  proof (cases "n < 10")
    case True
    with "1.prems" show ?thesis by (subst (asm) str_nat.simps) (simp add: digit_char_props)
  next
    case False
    with "1.prems" have "hd (str_nat (n div 10)) = CHR ''0''"
      by (subst (asm) str_nat.simps) (simp add: str_nat_not_Nil)
    with "1.IH" False have "n div 10 = 0" by simp
    with False show ?thesis by simp
  qed
qed

lemma str_nat_zero: "str_nat 0 = ''0''"
  by (simp add: str_nat.simps digit_char_def)

lemma str_nat_length: "n < 1000 \<Longrightarrow> length (str_nat n) \<le> 3"
  by (subst str_nat.simps, subst str_nat.simps, subst str_nat.simps) simp

lemma parse_octet_str_nat:
  assumes "n < 256"
  shows "parse_octet (str_nat n) = Some n"
proof -
  have "\<not> (str_nat n \<noteq> ''0'' \<and> hd (str_nat n) = CHR ''0'')"
    using str_nat_leading_zero [of n] str_nat_zero by auto
  moreover have "length (str_nat n) \<le> 3" using assms by (simp add: str_nat_length)
  ultimately show ?thesis
    using assms by (simp add: parse_octet_def str_nat_not_Nil str_nat_digits int10_str_nat)
qed

lemma isdigit_not_dot: "isdigit c \<Longrightarrow> c \<noteq> CHR ''.'' \<and> c \<noteq> CHR ''/''"
  by (auto simp: isdigit_def)

lemma str_nat_no_sep: "CHR ''.'' \<notin> set (str_nat n)" "CHR ''/'' \<notin> set (str_nat n)"
  using str_nat_digits [of n] isdigit_not_dot by (auto simp: list_all_iff)

lemma split_on_no_sep: "sep \<notin> set p \<Longrightarrow> split_on sep p = [p]"
  by (induction p) auto

lemma split_on_piece: "sep \<notin> set p \<Longrightarrow> split_on sep (p @ sep # rest) = p # split_on sep rest"
  by (induction p) (auto split: list.splits)

lemma from_bytes_to_bytes: "from_bytes (to_bytes ip) = ip"
proof -
  define n where "n = unat ip"
  define q1 where "q1 = n div 256"
  define q2 where "q2 = q1 div 256"
  define q3 where "q3 = q2 div 256"
  have "n < 2 ^ 32" unfolding n_def using unsigned_less [of ip] by simp
  then have "n < 256 * (256 * (256 * 256))" by simp
  then have "q1 < 256 * (256 * 256)" unfolding q1_def by (simp add: div_less_iff_less_mult)
  then have "q2 < 256 * 256" unfolding q2_def by (simp add: div_less_iff_less_mult)
  then have "q3 < 256" unfolding q3_def by (simp add: div_less_iff_less_mult)
  then have m3: "q3 mod 256 = q3" by simp
  have d2: "n div 65536 = q2" unfolding q2_def q1_def by (simp add: div_mult2_eq [symmetric])
  have d3: "n div 16777216 = q3"
    unfolding q3_def q2_def q1_def by (simp add: div_mult2_eq [symmetric])
  have "q3 * 256 + q2 mod 256 = q2" unfolding q3_def by simp
  moreover have "q2 * 256 + q1 mod 256 = q1" unfolding q2_def by simp
  moreover have "q1 * 256 + n mod 256 = n" unfolding q1_def by simp
  ultimately have key: "((q3 * 256 + q2 mod 256) * 256 + q1 mod 256) * 256 + n mod 256 = n"
    by simp
  have "to_bytes ip = [q3, q2 mod 256, q1 mod 256, n mod 256]"
    by (simp only: to_bytes_def n_def [symmetric] d3 d2 m3 q1_def [symmetric])
  then have "fold (\<lambda>b acc. acc * 256 + b) (to_bytes ip) 0 = n"
    using key by simp
  then show ?thesis unfolding from_bytes_def n_def by simp
qed

text \<open>The text of an address parses back to the address.\<close>

lemma IPv4Address_str_ipv4: "IPv4Address (str_ipv4 ip) = Some ip"
proof -
  obtain a b c d where bytes: "to_bytes ip = [a, b, c, d]"
    and lt: "a < 256" "b < 256" "c < 256" "d < 256"
    by (simp add: to_bytes_def)
  have s: "str_ipv4 ip = str_nat a @ CHR ''.'' # str_nat b @ CHR ''.'' # str_nat c
                           @ CHR ''.'' # str_nat d"
    by (simp add: str_ipv4_def bytes)
  have sp: "split_on CHR ''.'' (str_ipv4 ip) = [str_nat a, str_nat b, str_nat c, str_nat d]"
    unfolding s by (simp add: split_on_piece split_on_no_sep str_nat_no_sep)
  have "CHR ''/'' \<notin> set (str_ipv4 ip)" unfolding s by (simp add: str_nat_no_sep)
  moreover have "str_ipv4 ip \<noteq> []" unfolding s by (simp add: str_nat_not_Nil)
  ultimately show ?thesis
    using from_bytes_to_bytes [of ip]
    by (simp add: IPv4Address_def sp parse_octet_str_nat lt bytes)
qed

section \<open>The shape of a run\<close>

lemma look_up_world: "snd (look_up_ip_addr h w) = w\<lparr>trace := trace w @ [DohQuery h]\<rparr>"
  by (simp add: look_up_ip_addr_def Let_def IPv4Address_or_raise_def
           split: doh_reply.splits option.splits list.splits)

lemma needs_absent:
  assumes "returncode w (trace w) (probe_cmd tun) \<noteq> 0"
  shows "needs_interface_recreation l r tun w = (Inr True, w\<lparr>trace := trace w @ [Exec (probe_cmd tun)]\<rparr>)"
  using assms
  by (simp add: needs_interface_recreation_def bind_def subprocess_run_def Let_def return_def
                probe_cmd_def)

lemma needs_present_missing:
  assumes "returncode w (trace w) (probe_cmd tun) = 0" and "files w (state_path tun) = None"
  shows "needs_interface_recreation l r tun w
           = (Inl FileNotFoundError,
              w\<lparr>trace := trace w @ [Exec (probe_cmd tun), ReadFile (state_path tun)]\<rparr>)"
  using assms
  by (simp add: needs_interface_recreation_def bind_def subprocess_run_def Let_def return_def
                probe_cmd_def open_read_def)

lemma needs_present_file:
  assumes "returncode w (trace w) (probe_cmd tun) = 0" and "files w (state_path tun) = Some text"
  shows "needs_interface_recreation l r tun w
           = (case IPv4Address (fst (readline text)) of
                None \<Rightarrow> Inl AddressValueError
              | Some old_local \<Rightarrow>
                  (case IPv4Address (fst (readline (snd (readline text)))) of
                     None \<Rightarrow> Inl AddressValueError
                   | Some old_remote \<Rightarrow> Inr (l \<noteq> old_local \<or> r \<noteq> old_remote)),
              w\<lparr>trace := trace w @ [Exec (probe_cmd tun), ReadFile (state_path tun)]\<rparr>)"
  using assms
  by (simp add: needs_interface_recreation_def bind_def subprocess_run_def Let_def return_def
                probe_cmd_def open_read_def IPv4Address_or_raise_def
           split: prod.splits option.splits)

lemma reconcile_stmts:
  "[save_tunnel_addrs l r (tun_name args),
    run_stmt False [''ip'', ''link'', ''del'', tun_name args],
    run_stmt True [''ip'', ''tunnel'', ''add'', tun_name args, ''mode'', ''sit'',
                   ''remote'', str_ipv4 r, ''local'', str_ipv4 l,
                   ''mode'', ''any'', ''ttl'', ''255''],
    run_stmt True [''ip'', ''link'', ''set'', ''dev'', tun_name args, ''up'']]
   @ map (\<lambda>prefix. run_stmt True [''ip'', ''addr'', ''add'', prefix, ''dev'', tun_name args])
         (with_prefix args)
   @ (case with_ipv4_route args of
        None \<Rightarrow> []
      | Some routes \<Rightarrow>
          map (\<lambda>route. run_stmt True [''ip'', ''route'', ''add'', route,
                                        ''dev'', tun_name args]) routes)
   @ (case with_ipv6_route args of
        None \<Rightarrow> []
      | Some routes \<Rightarrow>
          map (\<lambda>route. run_stmt True [''ip'', ''route'', ''add'', route,
                                        ''dev'', tun_name args]) routes)
   @ (if ipv4_mode args = ''nat'' then
        [run_stmt True [''iptables'', ''-t'', ''nat'', ''-A'', ''POSTROUTING'',
                        ''-o'', tun_name args, ''-j'', ''MASQUERADE'']]
      else if ipv4_mode args = ''forward'' then
        [run_stmt True [''sysctl'', ''-w'', ''net.ipv4.ip_forward=1''],
         run_stmt True [''iptables'', ''-A'', ''FORWARD'', ''-i'', tun_name args,
                        ''-j'', ''ACCEPT''],
         run_stmt True [''iptables'', ''-A'', ''FORWARD'', ''-o'', tun_name args,
                        ''-j'', ''ACCEPT'']]
      else [])
   @ (if ipv6_mode args = ''nat'' then
        [run_stmt True [''ip6tables'', ''-t'', ''nat'', ''-A'', ''POSTROUTING'',
                        ''-o'', tun_name args, ''-j'', ''MASQUERADE'']]
      else if ipv6_mode args = ''forward'' then
        [run_stmt True [''sysctl'', ''-w'', ''net.ipv6.conf.all.forwarding=1''],
         run_stmt True [''iptables'', ''-A'', ''FORWARD'', ''-i'', tun_name args,
                        ''-j'', ''ACCEPT''],
         run_stmt True [''iptables'', ''-A'', ''FORWARD'', ''-o'', tun_name args,
                        ''-j'', ''ACCEPT'']]
      else [])
   = save_tunnel_addrs l r (tun_name args)
     # run_stmt False (teardown_cmd (tun_name args))
     # map (run_stmt True) (checked_cmds args l r)"
  by (simp add: checked_cmds_def teardown_cmd_def create_cmd_def up_cmd_def addr_cmd_def
                route_cmd_def routes_of_def addr_route_cmds_def ipv4_policy_cmds_def ipv6_policy_cmds_def comp_def
           split: option.splits)

lemma main_eq:
  "main args =
     bind (look_up_ip_addr (local_hostname args)) (\<lambda>l.
     bind (look_up_ip_addr (remote_hostname args)) (\<lambda>r.
     bind (needs_interface_recreation l r (tun_name args)) (\<lambda>needed.
     bind (if needed then reconcile args l r else return ()) (\<lambda>_. return 0))))"
  unfolding main_def reconcile_def reconcile_stmts ..

lemma reconcile_not_writable:
  "\<not> writable w (state_path (tun_name args)) \<Longrightarrow> reconcile args l r w = (Inl PermissionError, w)"
  by (simp add: reconcile_def bind_def save_tunnel_addrs_def Let_def)

lemma reconcile_writable:
  "writable w (state_path (tun_name args)) \<Longrightarrow>
   reconcile args l r w =
     block (map (run_stmt True) (checked_cmds args l r))
       (w\<lparr>files := (files w)(state_path (tun_name args) \<mapsto> record_text l r),
          trace := trace w @ [WriteFile (state_path (tun_name args)) (record_text l r),
                              Exec (teardown_cmd (tun_name args))]\<rparr>)"
  by (simp add: reconcile_def bind_def save_tunnel_addrs_def Let_def run_stmt_eq record_text_def)

lemma main_decided:
  assumes "look_up_ip_addr (local_hostname args) w = (Inr l, w1)"
    and "look_up_ip_addr (remote_hostname args) w1 = (Inr r, w2)"
    and "needs_interface_recreation l r (tun_name args) w2 = (Inr True, w3)"
  shows "main args w =
           (case fst (reconcile args l r w3) of Inl e \<Rightarrow> Inl e | Inr u \<Rightarrow> Inr 0,
            snd (reconcile args l r w3))"
  using assms
  by (simp add: main_eq bind_def return_def split: prod.splits sum.splits)

text \<open>Whatever happens in a block of commands, the files and the oracles stay.\<close>

lemma checked_block_trace:
  "\<exists>n. snd (block (map (run_stmt True) cs) w) = w\<lparr>trace := trace w @ map Exec (take n cs)\<rparr>"
proof -
  from checked_block [of cs w] show ?thesis
  proof
    assume "fst (block (map (run_stmt True) cs) w) = Inr ()
      \<and> snd (block (map (run_stmt True) cs) w) = w\<lparr>trace := trace w @ map Exec cs\<rparr>
      \<and> (\<forall>done c todo. cs = done @ c # todo \<longrightarrow> returncode w (trace w @ map Exec done) c = 0)"
    then have "snd (block (map (run_stmt True) cs) w)
                 = w\<lparr>trace := trace w @ map Exec (take (length cs) cs)\<rparr>" by simp
    then show ?thesis ..
  next
    assume "\<exists>done c todo. cs = done @ c # todo
         \<and> returncode w (trace w @ map Exec done) c \<noteq> 0
         \<and> (\<forall>d c' t. done = d @ c' # t \<longrightarrow> returncode w (trace w @ map Exec d) c' = 0)
         \<and> fst (block (map (run_stmt True) cs) w)
             = Inl (CalledProcessError (returncode w (trace w @ map Exec done) c) c)
         \<and> snd (block (map (run_stmt True) cs) w)
             = w\<lparr>trace := trace w @ map Exec done @ [Exec c]\<rparr>"
    then obtain dn c todo where "cs = dn @ c # todo"
       and "snd (block (map (run_stmt True) cs) w) = w\<lparr>trace := trace w @ map Exec dn @ [Exec c]\<rparr>"
      by blast
    then have "snd (block (map (run_stmt True) cs) w)
                 = w\<lparr>trace := trace w @ map Exec (take (Suc (length dn)) cs)\<rparr>" by simp
    then show ?thesis ..
  qed
qed

lemma decided_events:
  assumes "look_up_ip_addr (local_hostname args) w = (Inr l, w1)"
    and "look_up_ip_addr (remote_hostname args) w1 = (Inr r, w2)"
    and "needs_interface_recreation l r (tun_name args) w2 = (Inr True, w3)"
  shows "w3 = w\<lparr>trace := trace w @ [DohQuery (local_hostname args), DohQuery (remote_hostname args),
                                     Exec (probe_cmd (tun_name args))]\<rparr>"
proof -
  have w1: "w1 = w\<lparr>trace := trace w @ [DohQuery (local_hostname args)]\<rparr>"
    using look_up_world [of "local_hostname args" w] assms(1) by simp
  have w2: "w2 = w1\<lparr>trace := trace w1 @ [DohQuery (remote_hostname args)]\<rparr>"
    using look_up_world [of "remote_hostname args" w1] assms(2) by simp
  show ?thesis
  proof (cases "returncode w2 (trace w2) (probe_cmd (tun_name args)) = 0")
    case False
    from needs_absent [OF False, of l r] assms(3) w1 w2 show ?thesis by simp
  next
    case True
    show ?thesis
    proof (cases "files w2 (state_path (tun_name args))")
      case None
      from needs_present_missing [OF True None, of l r] assms(3) show ?thesis by simp
    next
      case (Some contents)
      from needs_present_file [OF True Some, of l r] assms(3) load_never_parses [of contents]
      show ?thesis by (auto split: option.splits)
    qed
  qed
qed


lemma map_Exec_split:
  "map Exec xs = before @ Exec c # after \<Longrightarrow>
   \<exists>d t. xs = d @ c # t \<and> before = map Exec d \<and> after = map Exec t"
  by (auto simp: map_eq_append_conv map_eq_Cons_conv)

text \<open>
  A reconciliation whose state file can be written: every checked command succeeded and the
  run returns 0, or the run stops at the first checked command that fails.
\<close>

lemma main_reconcile_cases:
  assumes "look_up_ip_addr (local_hostname args) w = (Inr l, w1)"
    and "look_up_ip_addr (remote_hostname args) w1 = (Inr r, w2)"
    and "needs_interface_recreation l r (tun_name args) w2 = (Inr True, w3)"
    and wr: "writable w (state_path (tun_name args))"
    and base: "base = trace w3 @ [WriteFile (state_path (tun_name args)) (record_text l r),
                                  Exec (teardown_cmd (tun_name args))]"
  shows "(fst (main args w) = Inr 0
          \<and> trace (snd (main args w)) = base @ map Exec (checked_cmds args l r)
          \<and> (\<forall>done c todo. checked_cmds args l r = done @ c # todo \<longrightarrow>
                returncode w (base @ map Exec done) c = 0))
       \<or> (\<exists>done c todo. checked_cmds args l r = done @ c # todo
          \<and> returncode w (base @ map Exec done) c \<noteq> 0
          \<and> (\<forall>d c' t. done = d @ c' # t \<longrightarrow> returncode w (base @ map Exec d) c' = 0)
          \<and> fst (main args w) = Inl (CalledProcessError (returncode w (base @ map Exec done) c) c)
          \<and> trace (snd (main args w)) = base @ map Exec done @ [Exec c])"
proof -
  have w3: "w3 = w\<lparr>trace := trace w @ [DohQuery (local_hostname args),
                 DohQuery (remote_hostname args), Exec (probe_cmd (tun_name args))]\<rparr>"
    by (rule decided_events [OF assms(1-3)])
  then have wr3: "writable w3 (state_path (tun_name args))" using wr by simp
  let ?w4 = "w3\<lparr>files := (files w3)(state_path (tun_name args) \<mapsto> record_text l r),
          trace := trace w3 @ [WriteFile (state_path (tun_name args)) (record_text l r),
                              Exec (teardown_cmd (tun_name args))]\<rparr>"
  have rc4: "returncode ?w4 = returncode w" and tr4: "trace ?w4 = base"
    using w3 base by simp_all
  have m: "main args w =
           (case fst (block (map (run_stmt True) (checked_cmds args l r)) ?w4) of
              Inl e \<Rightarrow> Inl e | Inr u \<Rightarrow> Inr 0,
            snd (block (map (run_stmt True) (checked_cmds args l r)) ?w4))"
    by (simp add: main_decided [OF assms(1-3)] reconcile_writable [OF wr3])
  from checked_block [of "checked_cmds args l r" ?w4] show ?thesis
    unfolding rc4 tr4
  proof
    assume "fst (block (map (run_stmt True) (checked_cmds args l r)) ?w4) = Inr ()
      \<and> snd (block (map (run_stmt True) (checked_cmds args l r)) ?w4)
          = ?w4\<lparr>trace := base @ map Exec (checked_cmds args l r)\<rparr>
      \<and> (\<forall>done c todo. checked_cmds args l r = done @ c # todo \<longrightarrow>
            returncode w (base @ map Exec done) c = 0)"
    then show ?thesis by (simp add: m)
  next
    assume "\<exists>done c todo. checked_cmds args l r = done @ c # todo
         \<and> returncode w (base @ map Exec done) c \<noteq> 0
         \<and> (\<forall>d c' t. done = d @ c' # t \<longrightarrow> returncode w (base @ map Exec d) c' = 0)
         \<and> fst (block (map (run_stmt True) (checked_cmds args l r)) ?w4)
             = Inl (CalledProcessError (returncode w (base @ map Exec done) c) c)
         \<and> snd (block (map (run_stmt True) (checked_cmds args l r)) ?w4)
             = ?w4\<lparr>trace := base @ map Exec done @ [Exec c]\<rparr>"
    then obtain dn c todo where "checked_cmds args l r = dn @ c # todo
         \<and> returncode w (base @ map Exec dn) c \<noteq> 0
         \<and> (\<forall>d c' t. dn = d @ c' # t \<longrightarrow> returncode w (base @ map Exec d) c' = 0)
         \<and> fst (main args w) = Inl (CalledProcessError (returncode w (base @ map Exec dn) c) c)
         \<and> trace (snd (main args w)) = base @ map Exec dn @ [Exec c]"
      by (auto simp: m)
    then show ?thesis by blast
  qed
qed

section \<open>The example, evaluated\<close>

lemmas parse_eval = IPv4Address_def parse_octet_def isdigit_def int10_def digit_val_def
  from_bytes_def

lemmas str_eval = str_ipv4_def to_bytes_def str_nat.simps digit_char_def

lemma parse_home: "IPv4Address ''10.0.0.1'' = Some 167772161"
  by (simp add: parse_eval)

lemma parse_peer: "IPv4Address ''10.0.0.2'' = Some 167772162"
  by (simp add: parse_eval)

lemma str_home: "str_ipv4 167772161 = ''10.0.0.1''"
  by (simp add: str_eval)

lemma str_peer: "str_ipv4 167772162 = ''10.0.0.2''"
  by (simp add: str_eval)

lemma look_up_answer:
  "doh w h = answer data \<Longrightarrow> IPv4Address data = Some ip \<Longrightarrow>
   look_up_ip_addr h w = (Inr ip, w\<lparr>trace := trace w @ [DohQuery h]\<rparr>)"
  by (simp add: look_up_ip_addr_def answer_def Let_def IPv4Address_or_raise_def)

lemma example_look_up_home:
  "doh w = example_doh \<Longrightarrow>
   look_up_ip_addr ''home.example.net'' w
     = (Inr 167772161, w\<lparr>trace := trace w @ [DohQuery ''home.example.net'']\<rparr>)"
  by (rule look_up_answer [OF _ parse_home]) (simp add: example_doh_def)

lemma example_look_up_peer:
  "doh w = example_doh \<Longrightarrow>
   look_up_ip_addr ''peer.example.net'' w
     = (Inr 167772162, w\<lparr>trace := trace w @ [DohQuery ''peer.example.net'']\<rparr>)"
  by (rule look_up_answer [OF _ parse_peer]) (simp add: example_doh_def)

lemma example_step_1:
  "look_up_ip_addr (local_hostname example_args) example_world
     = (Inr 167772161, example_world_1)"
  using example_look_up_home [of example_world]
  by (simp add: example_args_def example_world_def example_world_1_def)

lemma example_step_2:
  "look_up_ip_addr (remote_hostname example_args) example_world_1
     = (Inr 167772162, example_world_2)"
  using example_look_up_peer [of example_world_1]
  by (simp add: example_args_def example_world_def example_world_1_def example_world_2_def)

lemma example_step_3:
  "needs_interface_recreation 167772161 167772162 (tun_name example_args) example_world_2
     = (Inr True, example_world_3)"
  using needs_absent [of example_world_2 "''autosit''" 167772161 167772162]
  by (simp add: example_args_def example_world_def example_world_2_def example_world_3_def
       example_returncode_def probe_cmd_def up_cmd_def)

lemma example_first_run: "main example_args example_world = (Inr 0, settled_world)"
proof -
  have wr: "writable example_world_3 (state_path (tun_name example_args))"
    by (simp add: example_world_3_def example_world_def)
  show ?thesis
    unfolding main_decided [OF example_step_1 example_step_2 example_step_3]
      reconcile_writable [OF wr]
    by (simp add: example_args_def example_world_3_def example_world_def checked_cmds_def
          settled_world_def addr_route_cmds_def create_cmd_def up_cmd_def addr_cmd_def
          route_cmd_def routes_of_def
          ipv4_policy_cmds_def ipv6_policy_cmds_def teardown_cmd_def probe_cmd_def
          state_path_def record_text_def str_home str_peer
          bind_def run_stmt_eq return_def example_returncode_def)
qed

lemma failing_step_1:
  "look_up_ip_addr (local_hostname example_args) failing_world
     = (Inr 167772161, failing_world_1)"
  using example_look_up_home [of failing_world]
  by (simp add: example_args_def example_world_def failing_world_def failing_world_1_def)

lemma failing_step_2:
  "look_up_ip_addr (remote_hostname example_args) failing_world_1
     = (Inr 167772162, failing_world_2)"
  using example_look_up_peer [of failing_world_1]
  by (simp add: example_args_def example_world_def failing_world_def failing_world_1_def
        failing_world_2_def)

lemma failing_step_3:
  "needs_interface_recreation 167772161 167772162 (tun_name example_args) failing_world_2
     = (Inr True, failing_world_3)"
  using needs_absent [of failing_world_2 "''autosit''" 167772161 167772162]
  by (simp add: example_args_def example_world_def failing_world_def failing_world_2_def
        failing_world_3_def failing_returncode_def)

lemma failing_writable: "writable failing_world (state_path (tun_name example_args))"
  by (simp add: failing_world_def example_world_def)

lemma failing_create_ok:
  "returncode failing_world tr (create_cmd (tun_name example_args) 167772161 167772162) = 0"
  by (simp add: failing_world_def example_world_def failing_returncode_def create_cmd_def
        probe_cmd_def teardown_cmd_def addr_cmd_def)

lemma failing_up_ok: "returncode failing_world tr (up_cmd (tun_name example_args)) = 0"
  by (simp add: failing_world_def example_world_def failing_returncode_def up_cmd_def
        probe_cmd_def teardown_cmd_def addr_cmd_def)

lemma failing_run:
  "main example_args failing_world =
     (Inl (CalledProcessError 2 (addr_cmd ''autosit'' ''2001:db8:2::2/64'')),
      failing_world
        \<lparr>files := [state_path ''autosit'' \<mapsto> record_text 167772161 167772162],
         trace :=
           trace failing_world_3
           @ [WriteFile (state_path ''autosit'') (record_text 167772161 167772162),
              Exec (teardown_cmd ''autosit'')]
           @ [Exec (create_cmd ''autosit'' 167772161 167772162), Exec (up_cmd ''autosit''),
              Exec (addr_cmd ''autosit'' ''2001:db8:1::2/64'')]
           @ [Exec (addr_cmd ''autosit'' ''2001:db8:2::2/64'')]\<rparr>)"
proof -
  have wr: "writable failing_world_3 (state_path (tun_name example_args))"
    by (simp add: failing_world_3_def failing_world_def example_world_def)
  show ?thesis
    unfolding main_decided [OF failing_step_1 failing_step_2 failing_step_3]
      reconcile_writable [OF wr]
    by (simp add: example_args_def failing_world_3_def failing_world_def example_world_def
          checked_cmds_def addr_route_cmds_def create_cmd_def up_cmd_def addr_cmd_def
          route_cmd_def routes_of_def ipv4_policy_cmds_def ipv6_policy_cmds_def
          teardown_cmd_def probe_cmd_def state_path_def
          bind_def run_stmt_eq return_def failing_returncode_def)
qed

lemma look_up_fst:
  "fst (look_up_ip_addr h w) =
     (case doh w h of
        TransportError \<Rightarrow> Inl RequestException
      | Response code body \<Rightarrow>
          if 400 \<le> code \<and> code < 600 then Inl (HTTPError code)
          else (case body of
                  None \<Rightarrow> Inl JSONDecodeError
                | Some json \<Rightarrow>
                    if Status json \<noteq> 0 then Inl (RuntimeError (Status json))
                    else (case Answer json of
                            None \<Rightarrow> Inl KeyError
                          | Some [] \<Rightarrow> Inl IndexError
                          | Some (data # _) \<Rightarrow>
                              (case IPv4Address data of
                                 None \<Rightarrow> Inl AddressValueError
                               | Some ip \<Rightarrow> Inr ip))))"
proof (cases "doh w h")
  case TransportError
  then show ?thesis by (simp add: look_up_ip_addr_def Let_def)
next
  case (Response code body)
  then show ?thesis
    by (simp add: look_up_ip_addr_def Let_def IPv4Address_or_raise_def
             split: option.split list.split)
qed

lemma look_up_fst_trace:
  "fst (look_up_ip_addr h (w\<lparr>trace := t\<rparr>)) = fst (look_up_ip_addr h w)"
  by (simp add: look_up_fst)

lemma look_up_pair: "look_up_ip_addr h w = (fst (look_up_ip_addr h w), w\<lparr>trace := trace w @ [DohQuery h]\<rparr>)"
  using look_up_world [of h w] by (cases "look_up_ip_addr h w") simp

lemma main_local_fails:
  assumes "fst (look_up_ip_addr (local_hostname args) w) = Inl e"
  shows "main args w = (Inl e, w\<lparr>trace := trace w @ [DohQuery (local_hostname args)]\<rparr>)"
proof -
  from assms look_up_pair [of "local_hostname args" w]
  have "look_up_ip_addr (local_hostname args) w
          = (Inl e, w\<lparr>trace := trace w @ [DohQuery (local_hostname args)]\<rparr>)" by simp
  then show ?thesis by (simp add: main_eq bind_def)
qed

lemma main_remote_fails:
  assumes "fst (look_up_ip_addr (local_hostname args) w) = Inr l"
    and "fst (look_up_ip_addr (remote_hostname args) w) = Inl e"
  shows "main args w = (Inl e, w\<lparr>trace := trace w @ [DohQuery (local_hostname args),
                                                        DohQuery (remote_hostname args)]\<rparr>)"
proof -
  let ?w1 = "w\<lparr>trace := trace w @ [DohQuery (local_hostname args)]\<rparr>"
  from assms(1) look_up_pair [of "local_hostname args" w]
  have 1: "look_up_ip_addr (local_hostname args) w = (Inr l, ?w1)" by simp
  from assms(2) have "fst (look_up_ip_addr (remote_hostname args) ?w1) = Inl e"
    by (simp add: look_up_fst_trace)
  with look_up_pair [of "remote_hostname args" ?w1]
  have 2: "look_up_ip_addr (remote_hostname args) ?w1
             = (Inl e, ?w1\<lparr>trace := trace ?w1 @ [DohQuery (remote_hostname args)]\<rparr>)" by simp
  show ?thesis by (simp add: main_eq bind_def 1 2)
qed

lemma parse_alias: "IPv4Address ''home.example.net.'' = None"
  by (simp add: parse_eval)


section \<open>Worlds that agree stay in agreement\<close>

lemma bind_fst_snd:
  "bind m f w = (case fst (m w) of Inl e \<Rightarrow> (Inl e, snd (m w)) | Inr x \<Rightarrow> f x (snd (m w)))"
  by (simp add: bind_def split: prod.splits sum.splits)

lemma run_stmt_agree:
  "agree p w1 w2 \<Longrightarrow>
   fst (run_stmt c a w1) = fst (run_stmt c a w2)
   \<and> agree p (snd (run_stmt c a w1)) (snd (run_stmt c a w2))"
  by (simp add: run_stmt_eq agree_def)

lemma checked_block_agree:
  "agree p w1 w2 \<Longrightarrow>
   fst (block (map (run_stmt True) cs) w1) = fst (block (map (run_stmt True) cs) w2)
   \<and> agree p (snd (block (map (run_stmt True) cs) w1)) (snd (block (map (run_stmt True) cs) w2))"
proof (induction cs arbitrary: w1 w2)
  case Nil
  then show ?case by (simp add: return_def)
next
  case (Cons a cs)
  from run_stmt_agree [OF Cons.prems, of True a]
  have r: "fst (run_stmt True a w1) = fst (run_stmt True a w2)"
    and s: "agree p (snd (run_stmt True a w1)) (snd (run_stmt True a w2))" by simp_all
  show ?case
  proof (cases "fst (run_stmt True a w1)")
    case (Inl e)
    moreover from Inl r have "fst (run_stmt True a w2) = Inl e" by simp
    ultimately show ?thesis using s by (simp add: bind_fst_snd)
  next
    case (Inr u)
    moreover from Inr r have "fst (run_stmt True a w2) = Inr u" by simp
    ultimately show ?thesis using Cons.IH [OF s] by (simp add: bind_fst_snd)
  qed
qed

lemma reconcile_agree:
  assumes "agree (state_path (tun_name args)) w1 w2"
  shows "fst (reconcile args l r w1) = fst (reconcile args l r w2)
   \<and> agree (state_path (tun_name args)) (snd (reconcile args l r w1)) (snd (reconcile args l r w2))"
proof (cases "writable w1 (state_path (tun_name args))")
  case False
  with assms have "\<not> writable w2 (state_path (tun_name args))" by (simp add: agree_def)
  with False assms show ?thesis by (simp add: reconcile_not_writable)
next
  case True
  with assms have w2: "writable w2 (state_path (tun_name args))" by (simp add: agree_def)
  let ?upd = "\<lambda>w. w\<lparr>files := (files w)(state_path (tun_name args) \<mapsto> record_text l r),
          trace := trace w @ [WriteFile (state_path (tun_name args)) (record_text l r),
                              Exec (teardown_cmd (tun_name args))]\<rparr>"
  from assms have "agree (state_path (tun_name args)) (?upd w1) (?upd w2)"
    by (simp add: agree_def)
  from checked_block_agree [OF this] show ?thesis
    by (simp add: reconcile_writable [OF True] reconcile_writable [OF w2])
qed

lemma needs_agree:
  assumes "agree (state_path tun) w1 w2"
  shows "fst (needs_interface_recreation l r tun w1) = fst (needs_interface_recreation l r tun w2)
   \<and> agree (state_path tun) (snd (needs_interface_recreation l r tun w1))
        (snd (needs_interface_recreation l r tun w2))"
proof (cases "returncode w1 (trace w1) (probe_cmd tun) = 0")
  case False
  with assms have "returncode w2 (trace w2) (probe_cmd tun) \<noteq> 0" by (simp add: agree_def)
  with False assms show ?thesis by (simp add: needs_absent agree_def)
next
  case True
  with assms have t2: "returncode w2 (trace w2) (probe_cmd tun) = 0" by (simp add: agree_def)
  show ?thesis
  proof (cases "files w1 (state_path tun)")
    case None
    with assms have "files w2 (state_path tun) = None" by (simp add: agree_def)
    with None True t2 assms show ?thesis by (simp add: needs_present_missing agree_def)
  next
    case (Some contents)
    with assms have "files w2 (state_path tun) = Some contents" by (simp add: agree_def)
    with Some True t2 assms show ?thesis by (simp add: needs_present_file agree_def)
  qed
qed

lemma look_up_agree:
  assumes "doh w1 h = doh w2 h" and "agree p w1 w2"
  shows "fst (look_up_ip_addr h w1) = fst (look_up_ip_addr h w2)
   \<and> agree p (snd (look_up_ip_addr h w1)) (snd (look_up_ip_addr h w2))"
  using assms by (simp add: look_up_fst look_up_world agree_def)

lemma bind_agree:
  assumes "fst (m w1) = fst (m w2)"
    and "agree p (snd (m w1)) (snd (m w2))"
    and "\<And>x. fst (m w1) = Inr x \<Longrightarrow>
           fst (f x (snd (m w1))) = fst (f x (snd (m w2)))
           \<and> agree p (snd (f x (snd (m w1)))) (snd (f x (snd (m w2))))"
  shows "fst (bind m f w1) = fst (bind m f w2) \<and> agree p (snd (bind m f w1)) (snd (bind m f w2))"
proof (cases "fst (m w1)")
  case (Inl e)
  moreover from Inl assms(1) have "fst (m w2) = Inl e" by simp
  ultimately show ?thesis using assms(2) by (simp add: bind_fst_snd)
next
  case (Inr x)
  moreover from Inr assms(1) have "fst (m w2) = Inr x" by simp
  ultimately show ?thesis using assms(3) [OF Inr] by (simp add: bind_fst_snd)
qed

lemma main_agree:
  assumes l: "doh w1 (local_hostname args) = doh w2 (local_hostname args)"
    and r: "doh w1 (remote_hostname args) = doh w2 (remote_hostname args)"
    and a: "agree (state_path (tun_name args)) w1 w2"
  shows "fst (main args w1) = fst (main args w2)
   \<and> agree (state_path (tun_name args)) (snd (main args w1)) (snd (main args w2))"
  unfolding main_eq
proof (rule bind_agree)
  let ?p = "state_path (tun_name args)"
  let ?lh = "local_hostname args" and ?rh = "remote_hostname args"
  let ?u1 = "snd (look_up_ip_addr ?lh w1)" and ?u2 = "snd (look_up_ip_addr ?lh w2)"
  from look_up_agree [OF l a]
  show "fst (look_up_ip_addr ?lh w1) = fst (look_up_ip_addr ?lh w2)"
    and a1: "agree ?p ?u1 ?u2" by simp_all
  have r': "doh ?u1 ?rh = doh ?u2 ?rh" using r by (simp add: look_up_world)
  fix lip
  show "fst (bind (look_up_ip_addr ?rh)
               (\<lambda>r. bind (needs_interface_recreation lip r (tun_name args))
                      (\<lambda>needed. bind (if needed then reconcile args lip r else return ())
                                   (\<lambda>_. return (0::int)))) ?u1)
        = fst (bind (look_up_ip_addr ?rh)
               (\<lambda>r. bind (needs_interface_recreation lip r (tun_name args))
                      (\<lambda>needed. bind (if needed then reconcile args lip r else return ())
                                   (\<lambda>_. return (0::int)))) ?u2)
      \<and> agree ?p
          (snd (bind (look_up_ip_addr ?rh)
               (\<lambda>r. bind (needs_interface_recreation lip r (tun_name args))
                      (\<lambda>needed. bind (if needed then reconcile args lip r else return ())
                                   (\<lambda>_. return (0::int)))) ?u1))
          (snd (bind (look_up_ip_addr ?rh)
               (\<lambda>r. bind (needs_interface_recreation lip r (tun_name args))
                      (\<lambda>needed. bind (if needed then reconcile args lip r else return ())
                                   (\<lambda>_. return (0::int)))) ?u2))"
  proof (rule bind_agree)
    let ?v1 = "snd (look_up_ip_addr ?rh ?u1)" and ?v2 = "snd (look_up_ip_addr ?rh ?u2)"
    from look_up_agree [OF r' a1]
    show "fst (look_up_ip_addr ?rh ?u1) = fst (look_up_ip_addr ?rh ?u2)"
      and a2: "agree ?p ?v1 ?v2" by simp_all
    fix rip
    show "fst (bind (needs_interface_recreation lip rip (tun_name args))
                 (\<lambda>needed. bind (if needed then reconcile args lip rip else return ())
                              (\<lambda>_. return (0::int))) ?v1)
          = fst (bind (needs_interface_recreation lip rip (tun_name args))
                 (\<lambda>needed. bind (if needed then reconcile args lip rip else return ())
                              (\<lambda>_. return (0::int))) ?v2)
        \<and> agree ?p
            (snd (bind (needs_interface_recreation lip rip (tun_name args))
                 (\<lambda>needed. bind (if needed then reconcile args lip rip else return ())
                              (\<lambda>_. return (0::int))) ?v1))
            (snd (bind (needs_interface_recreation lip rip (tun_name args))
                 (\<lambda>needed. bind (if needed then reconcile args lip rip else return ())
                              (\<lambda>_. return (0::int))) ?v2))"
    proof (rule bind_agree)
      let ?x1 = "snd (needs_interface_recreation lip rip (tun_name args) ?v1)"
      let ?x2 = "snd (needs_interface_recreation lip rip (tun_name args) ?v2)"
      from needs_agree [OF a2]
      show "fst (needs_interface_recreation lip rip (tun_name args) ?v1)
                  = fst (needs_interface_recreation lip rip (tun_name args) ?v2)"
        and a3: "agree ?p ?x1 ?x2" by simp_all
      fix needed
      show "fst (bind (if needed then reconcile args lip rip else return ()) (\<lambda>_. return (0::int)) ?x1)
            = fst (bind (if needed then reconcile args lip rip else return ())
                     (\<lambda>_. return (0::int)) ?x2)
          \<and> agree ?p
              (snd (bind (if needed then reconcile args lip rip else return ())
                      (\<lambda>_. return (0::int)) ?x1))
              (snd (bind (if needed then reconcile args lip rip else return ())
                      (\<lambda>_. return (0::int)) ?x2))"
      proof (rule bind_agree)
        show "fst ((if needed then reconcile args lip rip else return ()) ?x1)
                = fst ((if needed then reconcile args lip rip else return ()) ?x2)"
          using reconcile_agree [OF a3, of lip rip] by (simp add: return_def)
        show "agree ?p (snd ((if needed then reconcile args lip rip else return ()) ?x1))
                (snd ((if needed then reconcile args lip rip else return ()) ?x2))"
          using reconcile_agree [OF a3, of lip rip] a3 by (simp add: return_def)
        fix u :: unit
        show "fst (return (0::int) (snd ((if needed then reconcile args lip rip else return ()) ?x1)))
                = fst (return (0::int) (snd ((if needed then reconcile args lip rip else return ()) ?x2)))
              \<and> agree ?p
                  (snd (return (0::int) (snd ((if needed then reconcile args lip rip else return ()) ?x1))))
                  (snd (return (0::int) (snd ((if needed then reconcile args lip rip else return ()) ?x2))))"
          using reconcile_agree [OF a3, of lip rip] a3 by (simp add: return_def)
      qed
    qed
  qed
qed


section \<open>Reading the state file back\<close>

lemma readline_keeps_newline: "newline \<in> set s \<Longrightarrow> newline \<in> set (fst (readline s))"
  by (induction s) (auto split: prod.splits)

text \<open>The first line read back from a saved record ends in its newline and does not parse.\<close>

lemma saved_first_line: "IPv4Address (fst (readline (record_text l r))) = None"
proof (cases "IPv4Address (fst (readline (record_text l r)))")
  case None
  then show ?thesis .
next
  case (Some ip)
  have "newline \<in> set (record_text l r)" by (simp add: record_text_def)
  then have "newline \<in> set (fst (readline (record_text l r)))"
    by (rule readline_keeps_newline)
  with IPv4Address_no_newline [OF Some] show ?thesis by simp
qed

lemma readline_line: "newline \<notin> set p \<Longrightarrow> readline (p @ newline # rest) = (p @ [newline], rest)"
  by (induction p) auto

lemma saved_first_line_text: "fst (readline (record_text l r)) = str_ipv4 l @ [newline]"
proof -
  have "newline \<notin> set (str_ipv4 l)"
    using IPv4Address_no_newline [OF IPv4Address_str_ipv4 [of l]] .
  then show ?thesis by (simp add: record_text_def readline_line)
qed

text \<open>With the interface present the drift check always ends in an exception.\<close>

lemma needs_present:
  assumes "returncode w (trace w) (probe_cmd tun) = 0"
  shows "needs_interface_recreation l r tun w
           = (Inl (if files w (state_path tun) = None then FileNotFoundError
                   else AddressValueError),
              w\<lparr>trace := trace w @ [Exec (probe_cmd tun), ReadFile (state_path tun)]\<rparr>)"
proof (cases "files w (state_path tun)")
  case None
  with needs_present_missing [OF assms None, of l r] show ?thesis by simp
next
  case (Some contents)
  from needs_present_file [OF assms Some, of l r] load_never_parses [of contents] Some
  show ?thesis by (auto split: option.splits)
qed

lemma main_resolved:
  assumes "fst (look_up_ip_addr (local_hostname args) w) = Inr l"
    and "fst (look_up_ip_addr (remote_hostname args) w) = Inr r"
  shows "main args w =
           bind (needs_interface_recreation l r (tun_name args))
             (\<lambda>needed. bind (if needed then reconcile args l r else return ())
                          (\<lambda>_. return (0::int)))
             (w\<lparr>trace := trace w @ [DohQuery (local_hostname args),
                                     DohQuery (remote_hostname args)]\<rparr>)"
proof -
  let ?w1 = "w\<lparr>trace := trace w @ [DohQuery (local_hostname args)]\<rparr>"
  from assms(1) look_up_pair [of "local_hostname args" w]
  have 1: "look_up_ip_addr (local_hostname args) w = (Inr l, ?w1)" by simp
  from assms(2) have "fst (look_up_ip_addr (remote_hostname args) ?w1) = Inr r"
    by (simp add: look_up_fst_trace)
  with look_up_pair [of "remote_hostname args" ?w1]
  have 2: "look_up_ip_addr (remote_hostname args) ?w1
             = (Inr r, ?w1\<lparr>trace := trace ?w1 @ [DohQuery (remote_hostname args)]\<rparr>)" by simp
  show ?thesis by (simp add: main_eq bind_def 1 2)
qed

lemma main_present:
  assumes "fst (look_up_ip_addr (local_hostname args) w) = Inr l"
    and "fst (look_up_ip_addr (remote_hostname args) w) = Inr r"
    and "returncode w (trace w @ [DohQuery (local_hostname args), DohQuery (remote_hostname args)])
           (probe_cmd (tun_name args)) = 0"
  shows "main args w
           = (Inl (if files w (state_path (tun_name args)) = None then FileNotFoundError
                   else AddressValueError),
              w\<lparr>trace := trace w @ [DohQuery (local_hostname args),
                                      DohQuery (remote_hostname args),
                                      Exec (probe_cmd (tun_name args)),
                                      ReadFile (state_path (tun_name args))]\<rparr>)"
proof -
  let ?w2 = "w\<lparr>trace := trace w @ [DohQuery (local_hostname args),
                                     DohQuery (remote_hostname args)]\<rparr>"
  from assms(3) have "returncode ?w2 (trace ?w2) (probe_cmd (tun_name args)) = 0" by simp
  from needs_present [OF this, of l r] show ?thesis
    by (simp add: main_resolved [OF assms(1,2)] bind_def)
qed

lemma checked_cmds_no_ip6tables:
  "ipv6_mode args = ''forward'' \<Longrightarrow> c \<in> set (checked_cmds args l r) \<Longrightarrow> hd c \<noteq> ''ip6tables''"
  by (auto simp: checked_cmds_def addr_route_cmds_def create_cmd_def up_cmd_def addr_cmd_def
        route_cmd_def ipv4_policy_cmds_def ipv6_policy_cmds_def split: if_splits)

lemma settled_facts:
  "fst (look_up_ip_addr (local_hostname example_args) settled_world) = Inr 167772161"
  "fst (look_up_ip_addr (remote_hostname example_args) settled_world) = Inr 167772162"
  "returncode settled_world history (probe_cmd (tun_name example_args))
     = (if Exec (up_cmd ''autosit'') \<in> set history then 0 else 1)"
  "files settled_world (state_path (tun_name example_args))
     = Some (record_text 167772161 167772162)"
proof -
  have d: "doh settled_world = example_doh" by (simp add: settled_world_def example_world_def)
  show "fst (look_up_ip_addr (local_hostname example_args) settled_world) = Inr 167772161"
    using example_look_up_home [OF d] by (simp add: example_args_def)
  show "fst (look_up_ip_addr (remote_hostname example_args) settled_world) = Inr 167772162"
    using example_look_up_peer [OF d] by (simp add: example_args_def)
  show "returncode settled_world history (probe_cmd (tun_name example_args))
     = (if Exec (up_cmd ''autosit'') \<in> set history then 0 else 1)"
    by (simp add: settled_world_def example_world_def example_returncode_def example_args_def)
  show "files settled_world (state_path (tun_name example_args))
     = Some (record_text 167772161 167772162)"
    by (simp add: settled_world_def example_args_def state_path_def record_text_def
          str_home str_peer)
qed

lemma settled_up: "Exec (up_cmd ''autosit'') \<in> set (trace settled_world)"
  by (simp add: settled_world_def up_cmd_def)

lemma orphan_facts:
  "fst (look_up_ip_addr (local_hostname example_args) orphan_world) = Inr 167772161"
  "fst (look_up_ip_addr (remote_hostname example_args) orphan_world) = Inr 167772162"
  "returncode orphan_world history argv = 0"
  "files orphan_world (state_path (tun_name example_args)) = None"
  "writable orphan_world path"
  "trace orphan_world = []"
proof -
  have d: "doh orphan_world = example_doh" by (simp add: orphan_world_def example_world_def)
  show "fst (look_up_ip_addr (local_hostname example_args) orphan_world) = Inr 167772161"
    using example_look_up_home [OF d] by (simp add: example_args_def)
  show "fst (look_up_ip_addr (remote_hostname example_args) orphan_world) = Inr 167772162"
    using example_look_up_peer [OF d] by (simp add: example_args_def)
qed (simp_all add: orphan_world_def example_world_def)

lemma garbled_facts:
  "fst (look_up_ip_addr (local_hostname example_args) garbled_world) = Inr 167772161"
  "fst (look_up_ip_addr (remote_hostname example_args) garbled_world) = Inr 167772162"
  "returncode garbled_world history argv = 0"
  "files garbled_world (state_path (tun_name example_args)) = Some ''not a record''"
  "trace garbled_world = []"
proof -
  have d: "doh garbled_world = example_doh"
    by (simp add: garbled_world_def orphan_world_def example_world_def)
  show "fst (look_up_ip_addr (local_hostname example_args) garbled_world) = Inr 167772161"
    using example_look_up_home [OF d] by (simp add: example_args_def)
  show "fst (look_up_ip_addr (remote_hostname example_args) garbled_world) = Inr 167772162"
    using example_look_up_peer [OF d] by (simp add: example_args_def)
qed (simp_all add: garbled_world_def orphan_world_def example_world_def example_args_def
       state_path_def)

lemma parse_garbled: "IPv4Address (fst (readline ''not a record'')) = None"
  by (simp add: newline_def parse_eval)

section \<open>State precedes mutation\<close>

text \<open>
  Claim C5. In every run whose drift check answers that reconciliation is required, the
  events of the run up to that answer change nothing in the network configuration, and what
  follows is either nothing at all (the state file could not be written, and the run ends
  with that error) or begins with the write of the new record: the freshly resolved local
  and remote address together, in one text. Every mutating command of the run therefore
  comes after the write, and the state file holds the new record from then on.
\<close>

theorem state_precedes_mutation:
  assumes "look_up_ip_addr (local_hostname args) w = (Inr l, w1)"
    and "look_up_ip_addr (remote_hostname args) w1 = (Inr r, w2)"
    and "needs_interface_recreation l r (tun_name args) w2 = (Inr True, w3)"
  shows "\<exists>pre post. trace w3 = trace w @ pre
           \<and> trace (snd (main args w)) = trace w3 @ post
           \<and> \<not> list_ex mutating pre
           \<and> (post = [] \<or> hd post = WriteFile (state_path (tun_name args)) (record_text l r))
           \<and> (post = [] \<or> files (snd (main args w)) (state_path (tun_name args))
                              = Some (record_text l r))"
proof -
  let ?pre = "[DohQuery (local_hostname args), DohQuery (remote_hostname args),
               Exec (probe_cmd (tun_name args))]"
  have w3: "w3 = w\<lparr>trace := trace w @ ?pre\<rparr>" by (rule decided_events [OF assms])
  have pre: "\<not> list_ex mutating ?pre" by (simp add: probe_cmd_def)
  have m: "snd (main args w) = snd (reconcile args l r w3)"
    by (simp add: main_decided [OF assms])
  show ?thesis
  proof (cases "writable w3 (state_path (tun_name args))")
    case False
    then have "trace (snd (main args w)) = trace w3 @ []"
      by (simp add: m reconcile_not_writable)
    with w3 pre show ?thesis by (intro exI [of _ ?pre] exI [of _ "[]"]) simp
  next
    case True
    let ?w4 = "w3\<lparr>files := (files w3)(state_path (tun_name args) \<mapsto> record_text l r),
          trace := trace w3 @ [WriteFile (state_path (tun_name args)) (record_text l r),
                              Exec (teardown_cmd (tun_name args))]\<rparr>"
    from checked_block_trace [of "checked_cmds args l r" ?w4] obtain n
      where "snd (block (map (run_stmt True) (checked_cmds args l r)) ?w4)
               = ?w4\<lparr>trace := trace ?w4 @ map Exec (take n (checked_cmds args l r))\<rparr>" ..
    then have fin: "snd (main args w)
               = ?w4\<lparr>trace := trace ?w4 @ map Exec (take n (checked_cmds args l r))\<rparr>"
      by (simp add: m reconcile_writable [OF True])
    let ?post = "[WriteFile (state_path (tun_name args)) (record_text l r),
                  Exec (teardown_cmd (tun_name args))]
                 @ map Exec (take n (checked_cmds args l r))"
    have "trace (snd (main args w)) = trace w3 @ ?post" by (simp add: fin)
    moreover have "files (snd (main args w)) (state_path (tun_name args)) = Some (record_text l r)"
      by (simp add: fin)
    ultimately show ?thesis using w3 pre
      by (intro exI [of _ ?pre] exI [of _ ?post]) simp
  qed
qed

theorem state_precedes_mutation_witness:
  "look_up_ip_addr (local_hostname example_args) example_world
     = (Inr 167772161, example_world_1)
   \<and> look_up_ip_addr (remote_hostname example_args) example_world_1
     = (Inr 167772162, example_world_2)
   \<and> needs_interface_recreation 167772161 167772162 (tun_name example_args) example_world_2
     = (Inr True, example_world_3)
   \<and> (\<exists>pre post. trace example_world_3 = trace example_world @ pre
           \<and> trace (snd (main example_args example_world)) = trace example_world_3 @ post
           \<and> \<not> list_ex mutating pre
           \<and> (post = [] \<or> hd post = WriteFile (state_path (tun_name example_args))
                                        (record_text 167772161 167772162))
           \<and> (post = [] \<or> files (snd (main example_args example_world))
                               (state_path (tun_name example_args))
                              = Some (record_text 167772161 167772162)))"
  using example_step_1 example_step_2 example_step_3
    state_precedes_mutation [OF example_step_1 example_step_2 example_step_3]
  by (intro conjI)

section \<open>Teardown is tolerated, every later command is fatal\<close>

text \<open>
  Claim C9. In a reconciliation (the state file having been written), the teardown
  \<^verbatim>\<open>ip link del\<close> is followed by the creation of the interface whatever its exit
  status was. Every command issued after the teardown that exits with a non-zero status is
  the last event of the run: nothing is attempted after it, nothing is undone, and the run
  ends with the \<^verbatim>\<open>CalledProcessError\<close> of that command.
\<close>

theorem teardown_tolerated_rest_fatal:
  assumes "look_up_ip_addr (local_hostname args) w = (Inr l, w1)"
    and "look_up_ip_addr (remote_hostname args) w1 = (Inr r, w2)"
    and "needs_interface_recreation l r (tun_name args) w2 = (Inr True, w3)"
    and "writable w (state_path (tun_name args))"
    and "base = trace w3 @ [WriteFile (state_path (tun_name args)) (record_text l r),
                            Exec (teardown_cmd (tun_name args))]"
  shows "(\<exists>rest. trace (snd (main args w))
                   = base @ Exec (create_cmd (tun_name args) l r) # rest)
       \<and> (\<forall>before c after.
             trace (snd (main args w)) = base @ before @ Exec c # after
             \<and> returncode w (base @ before) c \<noteq> 0
             \<longrightarrow> after = []
                 \<and> fst (main args w) = Inl (CalledProcessError (returncode w (base @ before) c) c))"
proof -
  note cases = main_reconcile_cases [OF assms]
  have hd_checked: "\<exists>cs. checked_cmds args l r = create_cmd (tun_name args) l r # cs"
    by (simp add: checked_cmds_def)
  have first: "\<exists>rest. trace (snd (main args w)) = base @ Exec (create_cmd (tun_name args) l r) # rest"
    using cases
  proof
    assume "fst (main args w) = Inr 0
          \<and> trace (snd (main args w)) = base @ map Exec (checked_cmds args l r)
          \<and> (\<forall>done c todo. checked_cmds args l r = done @ c # todo \<longrightarrow>
                returncode w (base @ map Exec done) c = 0)"
    with hd_checked show ?thesis by auto
  next
    assume "\<exists>done c todo. checked_cmds args l r = done @ c # todo
          \<and> returncode w (base @ map Exec done) c \<noteq> 0
          \<and> (\<forall>d c' t. done = d @ c' # t \<longrightarrow> returncode w (base @ map Exec d) c' = 0)
          \<and> fst (main args w) = Inl (CalledProcessError (returncode w (base @ map Exec done) c) c)
          \<and> trace (snd (main args w)) = base @ map Exec done @ [Exec c]"
    then obtain dn c todo where d: "checked_cmds args l r = dn @ c # todo"
      and t: "trace (snd (main args w)) = base @ map Exec dn @ [Exec c]" by blast
    from hd_checked obtain cs where cs: "checked_cmds args l r = create_cmd (tun_name args) l r # cs" ..
    show ?thesis
    proof (cases dn)
      case Nil
      with d cs t show ?thesis by simp
    next
      case (Cons x xs)
      with d cs t show ?thesis by simp
    qed
  qed
  have fatal: "after = [] \<and> fst (main args w)
                 = Inl (CalledProcessError (returncode w (base @ before) c) c)"
    if tr: "trace (snd (main args w)) = base @ before @ Exec c # after"
      and rc: "returncode w (base @ before) c \<noteq> 0" for before c after
    using cases
  proof
    assume ok: "fst (main args w) = Inr 0
          \<and> trace (snd (main args w)) = base @ map Exec (checked_cmds args l r)
          \<and> (\<forall>done c todo. checked_cmds args l r = done @ c # todo \<longrightarrow>
                returncode w (base @ map Exec done) c = 0)"
    with tr have "map Exec (checked_cmds args l r) = before @ Exec c # after" by simp
    from map_Exec_split [OF this] obtain d t
      where "checked_cmds args l r = d @ c # t" "before = map Exec d" by blast
    with ok rc show ?thesis by blast
  next
    assume "\<exists>done c todo. checked_cmds args l r = done @ c # todo
          \<and> returncode w (base @ map Exec done) c \<noteq> 0
          \<and> (\<forall>d c' t. done = d @ c' # t \<longrightarrow> returncode w (base @ map Exec d) c' = 0)
          \<and> fst (main args w) = Inl (CalledProcessError (returncode w (base @ map Exec done) c) c)
          \<and> trace (snd (main args w)) = base @ map Exec done @ [Exec c]"
    then obtain dn c0 todo
      where before_ok: "\<forall>d c' t. dn = d @ c' # t \<longrightarrow> returncode w (base @ map Exec d) c' = 0"
      and res: "fst (main args w) = Inl (CalledProcessError (returncode w (base @ map Exec dn) c0) c0)"
      and t: "trace (snd (main args w)) = base @ map Exec dn @ [Exec c0]" by blast
    from t tr have "map Exec (dn @ [c0]) = before @ Exec c # after" by simp
    from map_Exec_split [OF this] obtain d t'
      where split: "dn @ [c0] = d @ c # t'" and b: "before = map Exec d" and a: "after = map Exec t'"
      by blast
    show ?thesis
    proof (cases t' rule: rev_cases)
      case Nil
      with split have "dn = d" "c0 = c" by simp_all
      with res b a Nil show ?thesis by simp
    next
      case (snoc ys y)
      with split have "dn = d @ c # ys" by simp
      with before_ok have "returncode w (base @ map Exec d) c = 0" by blast
      with rc b show ?thesis by simp
    qed
  qed
  from first fatal show ?thesis by blast
qed

theorem teardown_tolerated_rest_fatal_witness:
  "look_up_ip_addr (local_hostname example_args) failing_world
     = (Inr 167772161, failing_world_1)
   \<and> look_up_ip_addr (remote_hostname example_args) failing_world_1
     = (Inr 167772162, failing_world_2)
   \<and> needs_interface_recreation 167772161 167772162 (tun_name example_args) failing_world_2
     = (Inr True, failing_world_3)
   \<and> writable failing_world (state_path (tun_name example_args))
   \<and> returncode failing_world
        (trace failing_world_3
           @ [WriteFile (state_path (tun_name example_args))
                (record_text 167772161 167772162)])
        (teardown_cmd (tun_name example_args)) = 1
   \<and> (\<exists>rest. trace (snd (main example_args failing_world))
        = (trace failing_world_3
             @ [WriteFile (state_path (tun_name example_args))
                  (record_text 167772161 167772162),
                Exec (teardown_cmd (tun_name example_args))])
          @ Exec (create_cmd (tun_name example_args) 167772161 167772162) # rest)
   \<and> trace (snd (main example_args failing_world))
       = (trace failing_world_3
            @ [WriteFile (state_path (tun_name example_args))
                 (record_text 167772161 167772162),
               Exec (teardown_cmd (tun_name example_args))])
         @ [Exec (create_cmd ''autosit'' 167772161 167772162), Exec (up_cmd ''autosit''),
            Exec (addr_cmd ''autosit'' ''2001:db8:1::2/64'')]
         @ Exec (addr_cmd ''autosit'' ''2001:db8:2::2/64'') # []
   \<and> returncode failing_world
        ((trace failing_world_3
            @ [WriteFile (state_path (tun_name example_args))
                 (record_text 167772161 167772162),
               Exec (teardown_cmd (tun_name example_args))])
         @ [Exec (create_cmd ''autosit'' 167772161 167772162), Exec (up_cmd ''autosit''),
            Exec (addr_cmd ''autosit'' ''2001:db8:1::2/64'')])
        (addr_cmd ''autosit'' ''2001:db8:2::2/64'') = 2
   \<and> fst (main example_args failing_world)
       = Inl (CalledProcessError 2 (addr_cmd ''autosit'' ''2001:db8:2::2/64''))"
proof -
  let ?base = "trace failing_world_3
            @ [WriteFile (state_path (tun_name example_args))
                 (record_text 167772161 167772162),
               Exec (teardown_cmd (tun_name example_args))]"
  let ?before = "[Exec (create_cmd ''autosit'' 167772161 167772162), Exec (up_cmd ''autosit''),
            Exec (addr_cmd ''autosit'' ''2001:db8:1::2/64'')]"
  let ?c = "addr_cmd ''autosit'' ''2001:db8:2::2/64''"
  note T = teardown_tolerated_rest_fatal
      [OF failing_step_1 failing_step_2 failing_step_3 failing_writable refl]
  have td: "returncode failing_world
        (trace failing_world_3
           @ [WriteFile (state_path (tun_name example_args))
                (record_text 167772161 167772162)])
        (teardown_cmd (tun_name example_args)) = 1"
    by (simp add: failing_world_def example_world_def failing_returncode_def example_args_def
          teardown_cmd_def probe_cmd_def)
  have tn: "tun_name example_args = ''autosit''" by (simp add: example_args_def)
  have tr: "trace (snd (main example_args failing_world)) = ?base @ ?before @ Exec ?c # []"
    by (simp add: failing_run tn)
  have rc: "returncode failing_world (?base @ ?before) ?c = 2"
    by (simp add: failing_world_def example_world_def failing_returncode_def
          addr_cmd_def teardown_cmd_def probe_cmd_def)
  from T have "\<exists>rest. trace (snd (main example_args failing_world))
        = ?base @ Exec (create_cmd (tun_name example_args) 167772161 167772162) # rest"
    by blast
  moreover from T tr rc
  have "fst (main example_args failing_world) = Inl (CalledProcessError 2 ?c)"
    by (metis zero_neq_numeral)
  ultimately show ?thesis
    using failing_step_1 failing_step_2 failing_step_3 failing_writable td tr rc
    by (intro conjI)
qed


section \<open>Prefixes and routes in the caller's order\<close>

text \<open>
  Claim C7. In a reconciliation that has created the interface and brought it up, the
  commands that follow are the address assignments for the prefixes in the order supplied,
  then the IPv4 routes in order, then the IPv6 routes in order, each naming the tunnel
  interface as device. Either all of them are run and succeed (the policy commands follow),
  or the run stops at the first of them that fails: that command is the last event, none of
  the remaining prefixes and routes and nothing of the later steps is attempted, and the run
  ends with its \<^verbatim>\<open>CalledProcessError\<close>.
\<close>

theorem prefixes_and_routes_in_order:
  assumes "look_up_ip_addr (local_hostname args) w = (Inr l, w1)"
    and "look_up_ip_addr (remote_hostname args) w1 = (Inr r, w2)"
    and "needs_interface_recreation l r (tun_name args) w2 = (Inr True, w3)"
    and "writable w (state_path (tun_name args))"
    and base: "base = trace w3 @ [WriteFile (state_path (tun_name args)) (record_text l r),
                            Exec (teardown_cmd (tun_name args))]"
    and create_ok: "returncode w base (create_cmd (tun_name args) l r) = 0"
    and up_ok: "returncode w (base @ [Exec (create_cmd (tun_name args) l r)])
                  (up_cmd (tun_name args)) = 0"
    and start: "start = base @ [Exec (create_cmd (tun_name args) l r),
                                Exec (up_cmd (tun_name args))]"
  shows "(\<exists>rest. trace (snd (main args w)) = start @ map Exec (addr_route_cmds args) @ rest
            \<and> (\<forall>done c todo. addr_route_cmds args = done @ c # todo \<longrightarrow>
                  returncode w (start @ map Exec done) c = 0))
       \<or> (\<exists>done c todo. addr_route_cmds args = done @ c # todo
            \<and> (\<forall>d c' t. done = d @ c' # t \<longrightarrow> returncode w (start @ map Exec d) c' = 0)
            \<and> returncode w (start @ map Exec done) c \<noteq> 0
            \<and> trace (snd (main args w)) = start @ map Exec done @ [Exec c]
            \<and> fst (main args w)
                = Inl (CalledProcessError (returncode w (start @ map Exec done) c) c))"
proof -
  let ?create = "create_cmd (tun_name args) l r"
  let ?up = "up_cmd (tun_name args)"
  let ?seg = "addr_route_cmds args"
  let ?policy = "ipv4_policy_cmds (ipv4_mode args) (tun_name args)
                 @ ipv6_policy_cmds (ipv6_mode args) (tun_name args)"
  have checked: "checked_cmds args l r = ?create # ?up # ?seg @ ?policy"
    by (simp add: checked_cmds_def)
  have start': "start = base @ map Exec [?create, ?up]" using start by simp
  from main_reconcile_cases [OF assms(1-5)] show ?thesis
  proof
    assume ok: "fst (main args w) = Inr 0
          \<and> trace (snd (main args w)) = base @ map Exec (checked_cmds args l r)
          \<and> (\<forall>done c todo. checked_cmds args l r = done @ c # todo \<longrightarrow>
                returncode w (base @ map Exec done) c = 0)"
    then have tr: "trace (snd (main args w)) = start @ map Exec ?seg @ map Exec ?policy"
      by (simp add: checked start)
    have "returncode w (start @ map Exec dn) c = 0" if "?seg = dn @ c # todo" for dn c todo
    proof -
      from that have "checked_cmds args l r = (?create # ?up # dn) @ c # (todo @ ?policy)"
        by (simp add: checked)
      with ok have "returncode w (base @ map Exec (?create # ?up # dn)) c = 0" by blast
      then show ?thesis by (simp add: start)
    qed
    with tr show ?thesis by blast
  next
    assume "\<exists>done c todo. checked_cmds args l r = done @ c # todo
          \<and> returncode w (base @ map Exec done) c \<noteq> 0
          \<and> (\<forall>d c' t. done = d @ c' # t \<longrightarrow> returncode w (base @ map Exec d) c' = 0)
          \<and> fst (main args w) = Inl (CalledProcessError (returncode w (base @ map Exec done) c) c)
          \<and> trace (snd (main args w)) = base @ map Exec done @ [Exec c]"
    then obtain dn c todo where split: "checked_cmds args l r = dn @ c # todo"
      and rc: "returncode w (base @ map Exec dn) c \<noteq> 0"
      and before_ok: "\<forall>d c' t. dn = d @ c' # t \<longrightarrow> returncode w (base @ map Exec d) c' = 0"
      and res: "fst (main args w) = Inl (CalledProcessError (returncode w (base @ map Exec dn) c) c)"
      and tr: "trace (snd (main args w)) = base @ map Exec dn @ [Exec c]"
      by blast
    from split checked have eq: "?create # ?up # ?seg @ ?policy = dn @ c # todo" by simp
    have "dn \<noteq> []"
    proof
      assume "dn = []"
      with eq have "c = ?create" by simp
      with rc \<open>dn = []\<close> create_ok show False by simp
    qed
    then obtain x dn1 where dn: "dn = x # dn1" by (cases dn) auto
    with eq have x: "x = ?create" and eq1: "?up # ?seg @ ?policy = dn1 @ c # todo" by simp_all
    have "dn1 \<noteq> []"
    proof
      assume "dn1 = []"
      with eq1 have "c = ?up" by simp
      with rc dn x \<open>dn1 = []\<close> up_ok show False by simp
    qed
    then obtain y dn2 where dn1: "dn1 = y # dn2" by (cases dn1) auto
    with eq1 have y: "y = ?up" and eq2: "?seg @ ?policy = dn2 @ c # todo" by simp_all
    have dn_eq: "dn = ?create # ?up # dn2" using dn dn1 x y by simp
    have pre: "base @ map Exec dn = start @ map Exec dn2" by (simp add: dn_eq start)
    have before2: "returncode w (start @ map Exec d) c' = 0" if "dn2 = d @ c' # t" for d c' t
    proof -
      from that have "dn = (?create # ?up # d) @ c' # t" by (simp add: dn_eq)
      with before_ok have "returncode w (base @ map Exec (?create # ?up # d)) c' = 0" by blast
      then show ?thesis by (simp add: start)
    qed
    from eq2 obtain us where
      "(?seg = dn2 @ us \<and> us @ ?policy = c # todo) \<or> (?seg @ us = dn2 \<and> ?policy = us @ c # todo)"
      unfolding append_eq_append_conv2 by blast
    then show ?thesis
    proof
      assume a: "?seg = dn2 @ us \<and> us @ ?policy = c # todo"
      show ?thesis
      proof (cases us)
        case Nil
        with a have seg: "?seg = dn2" by simp
        from tr pre seg have "trace (snd (main args w)) = start @ map Exec ?seg @ [Exec c]"
          by simp
        moreover have "\<forall>done c todo. ?seg = done @ c # todo \<longrightarrow>
                         returncode w (start @ map Exec done) c = 0"
          using before2 seg by auto
        ultimately show ?thesis by blast
      next
        case (Cons u us')
        with a have "?seg = dn2 @ c # us'" by simp
        moreover have "\<forall>d c' t. dn2 = d @ c' # t \<longrightarrow> returncode w (start @ map Exec d) c' = 0"
          using before2 by blast
        moreover have "returncode w (start @ map Exec dn2) c \<noteq> 0" using rc pre by simp
        moreover have "trace (snd (main args w)) = start @ map Exec dn2 @ [Exec c]"
          using tr pre by simp
        moreover have "fst (main args w)
                = Inl (CalledProcessError (returncode w (start @ map Exec dn2) c) c)"
          using res pre by simp
        ultimately show ?thesis by blast
      qed
    next
      assume a: "?seg @ us = dn2 \<and> ?policy = us @ c # todo"
      then have dn2: "dn2 = ?seg @ us" by simp
      from tr pre dn2 have "trace (snd (main args w))
                              = start @ map Exec ?seg @ (map Exec us @ [Exec c])"
        by simp
      moreover have "returncode w (start @ map Exec dn') c' = 0"
        if "?seg = dn' @ c' # t" for dn' c' t
      proof -
        from that dn2 have "dn2 = dn' @ c' # (t @ us)" by simp
        then show ?thesis by (rule before2)
      qed
      ultimately show ?thesis by blast
    qed
  qed
qed

theorem prefixes_and_routes_in_order_witness:
  "look_up_ip_addr (local_hostname example_args) failing_world
     = (Inr 167772161, failing_world_1)
   \<and> look_up_ip_addr (remote_hostname example_args) failing_world_1
     = (Inr 167772162, failing_world_2)
   \<and> needs_interface_recreation 167772161 167772162 (tun_name example_args) failing_world_2
     = (Inr True, failing_world_3)
   \<and> writable failing_world (state_path (tun_name example_args))
   \<and> returncode failing_world
        (trace failing_world_3
           @ [WriteFile (state_path (tun_name example_args)) (record_text 167772161 167772162),
              Exec (teardown_cmd (tun_name example_args))])
        (create_cmd (tun_name example_args) 167772161 167772162) = 0
   \<and> returncode failing_world
        ((trace failing_world_3
           @ [WriteFile (state_path (tun_name example_args)) (record_text 167772161 167772162),
              Exec (teardown_cmd (tun_name example_args))])
         @ [Exec (create_cmd (tun_name example_args) 167772161 167772162)])
        (up_cmd (tun_name example_args)) = 0
   \<and> (\<exists>done c todo. addr_route_cmds example_args = done @ c # todo
        \<and> trace (snd (main example_args failing_world))
            = ((trace failing_world_3
                 @ [WriteFile (state_path (tun_name example_args))
                      (record_text 167772161 167772162),
                    Exec (teardown_cmd (tun_name example_args))])
               @ [Exec (create_cmd (tun_name example_args) 167772161 167772162),
                  Exec (up_cmd (tun_name example_args))])
              @ map Exec done @ [Exec c]
        \<and> c = addr_cmd ''autosit'' ''2001:db8:2::2/64''
        \<and> fst (main example_args failing_world) = Inl (CalledProcessError 2 c))"
proof -
  let ?base = "trace failing_world_3
           @ [WriteFile (state_path (tun_name example_args)) (record_text 167772161 167772162),
              Exec (teardown_cmd (tun_name example_args))]"
  let ?start = "?base @ [Exec (create_cmd (tun_name example_args) 167772161 167772162),
                  Exec (up_cmd (tun_name example_args))]"
  have seg: "addr_route_cmds example_args
               = [addr_cmd ''autosit'' ''2001:db8:1::2/64'', addr_cmd ''autosit'' ''2001:db8:2::2/64'',
                  route_cmd ''autosit'' ''192.0.2.0/24'', route_cmd ''autosit'' ''2001:db8:ff::/48'']"
    by (simp add: addr_route_cmds_def example_args_def routes_of_def)
  have rc: "returncode failing_world tr c
              = (if c = addr_cmd ''autosit'' ''2001:db8:2::2/64'' then 2 else 0)"
    if "c \<in> set (addr_route_cmds example_args)" for tr c
    using that unfolding seg
    by (auto simp: failing_world_def example_world_def failing_returncode_def
          addr_cmd_def route_cmd_def probe_cmd_def teardown_cmd_def)
  from prefixes_and_routes_in_order
      [OF failing_step_1 failing_step_2 failing_step_3 failing_writable refl
          failing_create_ok failing_up_ok refl]
  have "\<exists>done c todo. addr_route_cmds example_args = done @ c # todo
        \<and> trace (snd (main example_args failing_world)) = ?start @ map Exec done @ [Exec c]
        \<and> c = addr_cmd ''autosit'' ''2001:db8:2::2/64''
        \<and> fst (main example_args failing_world) = Inl (CalledProcessError 2 c)"
  proof
    assume "\<exists>rest. trace (snd (main example_args failing_world))
                = ?start @ map Exec (addr_route_cmds example_args) @ rest
            \<and> (\<forall>done c todo. addr_route_cmds example_args = done @ c # todo \<longrightarrow>
                  returncode failing_world (?start @ map Exec done) c = 0)"
    then have all_ok: "\<forall>done c todo. addr_route_cmds example_args = done @ c # todo \<longrightarrow>
                  returncode failing_world (?start @ map Exec done) c = 0" by blast
    have "addr_route_cmds example_args
            = [addr_cmd ''autosit'' ''2001:db8:1::2/64''] @ addr_cmd ''autosit'' ''2001:db8:2::2/64''
              # [route_cmd ''autosit'' ''192.0.2.0/24'', route_cmd ''autosit'' ''2001:db8:ff::/48'']"
      by (simp add: seg)
    with all_ok have "returncode failing_world
        (?start @ map Exec [addr_cmd ''autosit'' ''2001:db8:1::2/64''])
        (addr_cmd ''autosit'' ''2001:db8:2::2/64'') = 0" by blast
    moreover have "addr_cmd ''autosit'' ''2001:db8:2::2/64'' \<in> set (addr_route_cmds example_args)"
      by (simp add: seg)
    ultimately show ?thesis using rc by force
  next
    assume "\<exists>done c todo. addr_route_cmds example_args = done @ c # todo
            \<and> (\<forall>d c' t. done = d @ c' # t \<longrightarrow> returncode failing_world (?start @ map Exec d) c' = 0)
            \<and> returncode failing_world (?start @ map Exec done) c \<noteq> 0
            \<and> trace (snd (main example_args failing_world)) = ?start @ map Exec done @ [Exec c]
            \<and> fst (main example_args failing_world)
                = Inl (CalledProcessError (returncode failing_world (?start @ map Exec done) c) c)"
    then obtain dn c todo where sp: "addr_route_cmds example_args = dn @ c # todo"
      and nz: "returncode failing_world (?start @ map Exec dn) c \<noteq> 0"
      and tr: "trace (snd (main example_args failing_world)) = ?start @ map Exec dn @ [Exec c]"
      and res: "fst (main example_args failing_world)
                = Inl (CalledProcessError (returncode failing_world (?start @ map Exec dn) c) c)"
      by blast
    from sp have mem: "c \<in> set (addr_route_cmds example_args)" by simp
    from rc [OF mem] nz have c: "c = addr_cmd ''autosit'' ''2001:db8:2::2/64''"
      by (auto split: if_splits)
    with rc [OF mem] res have "fst (main example_args failing_world) = Inl (CalledProcessError 2 c)"
      by simp
    with sp tr c show ?thesis by blast
  qed
  with failing_step_1 failing_step_2 failing_step_3 failing_writable
    failing_create_ok failing_up_ok
  show ?thesis by (intro conjI)
qed

section \<open>The resolver\<close>

text \<open>
  Claim C8. \<^verbatim>\<open>look_up_ip_addr\<close> returns an address exactly when the service was
  reached, answered without an HTTP error status, reported the status 0 and gave at least
  one answer record whose first address parses under the strict dotted-quad parser; the
  address returned is that first record's. It raises when the transport fails, when the
  HTTP status is an error, when the reported status is not 0, when there is no answer
  record, and when the first answer does not parse. When the lookup of the local or of the
  remote hostname raises, \<^verbatim>\<open>main\<close> ends with that error having done nothing
  but the queries: no command was run and no file was read or written.
\<close>

theorem resolver_contract:
  "((fst (look_up_ip_addr h w) = Inr ip)
      = (\<exists>code json data rest. doh w h = Response code (Some json)
           \<and> \<not> (400 \<le> code \<and> code < 600) \<and> Status json = 0
           \<and> Answer json = Some (data # rest) \<and> IPv4Address data = Some ip))
   \<and> (doh w h = TransportError \<longrightarrow> fst (look_up_ip_addr h w) = Inl RequestException)
   \<and> (\<forall>code body. doh w h = Response code body \<and> 400 \<le> code \<and> code < 600
         \<longrightarrow> fst (look_up_ip_addr h w) = Inl (HTTPError code))
   \<and> (\<forall>code json. doh w h = Response code (Some json) \<and> \<not> (400 \<le> code \<and> code < 600)
           \<and> Status json \<noteq> 0
         \<longrightarrow> fst (look_up_ip_addr h w) = Inl (RuntimeError (Status json)))
   \<and> (\<forall>code json. doh w h = Response code (Some json) \<and> \<not> (400 \<le> code \<and> code < 600)
           \<and> Status json = 0 \<and> (Answer json = None \<or> Answer json = Some [])
         \<longrightarrow> fst (look_up_ip_addr h w)
               = Inl (if Answer json = None then KeyError else IndexError))
   \<and> (\<forall>code json data rest. doh w h = Response code (Some json)
           \<and> \<not> (400 \<le> code \<and> code < 600) \<and> Status json = 0
           \<and> Answer json = Some (data # rest) \<and> IPv4Address data = None
         \<longrightarrow> fst (look_up_ip_addr h w) = Inl AddressValueError)
   \<and> (\<forall>e. fst (look_up_ip_addr (local_hostname args) w) = Inl e
         \<longrightarrow> main args w
               = (Inl e, w\<lparr>trace := trace w @ [DohQuery (local_hostname args)]\<rparr>))
   \<and> (\<forall>l e. fst (look_up_ip_addr (local_hostname args) w) = Inr l
           \<and> fst (look_up_ip_addr (remote_hostname args) w) = Inl e
         \<longrightarrow> main args w
               = (Inl e, w\<lparr>trace := trace w @ [DohQuery (local_hostname args),
                                                DohQuery (remote_hostname args)]\<rparr>))"
proof (intro conjI allI impI)
  show "(fst (look_up_ip_addr h w) = Inr ip)
      = (\<exists>code json data rest. doh w h = Response code (Some json)
           \<and> \<not> (400 \<le> code \<and> code < 600) \<and> Status json = 0
           \<and> Answer json = Some (data # rest) \<and> IPv4Address data = Some ip)"
    by (auto simp: look_up_fst split: doh_reply.splits option.splits list.splits)
next
  assume "doh w h = TransportError"
  then show "fst (look_up_ip_addr h w) = Inl RequestException"
    by (simp add: look_up_ip_addr_def Let_def)
next
  fix code body
  assume "doh w h = Response code body \<and> 400 \<le> code \<and> code < 600"
  then show "fst (look_up_ip_addr h w) = Inl (HTTPError code)"
    by (simp add: look_up_ip_addr_def Let_def)
next
  fix code json
  assume "doh w h = Response code (Some json) \<and> \<not> (400 \<le> code \<and> code < 600)
           \<and> Status json \<noteq> 0"
  then show "fst (look_up_ip_addr h w) = Inl (RuntimeError (Status json))"
    by (auto simp: look_up_ip_addr_def Let_def)
next
  fix code json
  assume "doh w h = Response code (Some json) \<and> \<not> (400 \<le> code \<and> code < 600)
           \<and> Status json = 0 \<and> (Answer json = None \<or> Answer json = Some [])"
  then show "fst (look_up_ip_addr h w) = Inl (if Answer json = None then KeyError else IndexError)"
    by (auto simp: look_up_ip_addr_def Let_def)
next
  fix code json data rest
  assume "doh w h = Response code (Some json)
           \<and> \<not> (400 \<le> code \<and> code < 600) \<and> Status json = 0
           \<and> Answer json = Some (data # rest) \<and> IPv4Address data = None"
  then show "fst (look_up_ip_addr h w) = Inl AddressValueError"
    by (auto simp: look_up_ip_addr_def Let_def IPv4Address_or_raise_def)
next
  fix e
  assume "fst (look_up_ip_addr (local_hostname args) w) = Inl e"
  then show "main args w = (Inl e, w\<lparr>trace := trace w @ [DohQuery (local_hostname args)]\<rparr>)"
    by (rule main_local_fails)
next
  fix l e
  assume "fst (look_up_ip_addr (local_hostname args) w) = Inr l
           \<and> fst (look_up_ip_addr (remote_hostname args) w) = Inl e"
  then show "main args w = (Inl e, w\<lparr>trace := trace w @ [DohQuery (local_hostname args),
                                                DohQuery (remote_hostname args)]\<rparr>)"
    using main_remote_fails by blast
qed

theorem resolver_contract_witness:
  "fst (look_up_ip_addr ''home.example.net'' example_world) = Inr 167772161
   \<and> (doh example_world ''unreachable.example.net'' = TransportError
      \<and> fst (look_up_ip_addr ''unreachable.example.net'' example_world) = Inl RequestException)
   \<and> (doh example_world ''gateway.example.net'' = Response 502 None
      \<and> fst (look_up_ip_addr ''gateway.example.net'' example_world) = Inl (HTTPError 502))
   \<and> (doh example_world ''servfail.example.net''
        = Response 200 (Some \<lparr>Status = 2, Answer = None\<rparr>)
      \<and> fst (look_up_ip_addr ''servfail.example.net'' example_world) = Inl (RuntimeError 2))
   \<and> (doh example_world ''empty.example.net''
        = Response 200 (Some \<lparr>Status = 0, Answer = Some []\<rparr>)
      \<and> fst (look_up_ip_addr ''empty.example.net'' example_world) = Inl IndexError)
   \<and> (doh example_world ''alias.example.net''
        = Response 200 (Some \<lparr>Status = 0, Answer = Some [''home.example.net.'', ''10.0.0.1'']\<rparr>)
      \<and> IPv4Address ''home.example.net.'' = None
      \<and> fst (look_up_ip_addr ''alias.example.net'' example_world) = Inl AddressValueError)
   \<and> main (example_args\<lparr>local_hostname := ''servfail.example.net''\<rparr>) example_world
       = (Inl (RuntimeError 2),
          example_world\<lparr>trace := trace example_world @ [DohQuery ''servfail.example.net'']\<rparr>)
   \<and> main (example_args\<lparr>remote_hostname := ''empty.example.net''\<rparr>) example_world
       = (Inl IndexError,
          example_world\<lparr>trace := trace example_world
                                    @ [DohQuery ''home.example.net'',
                                       DohQuery ''empty.example.net'']\<rparr>)"
proof -
  have d_home: "doh example_world ''home.example.net''
                  = Response 200 (Some \<lparr>Status = 0, Answer = Some [''10.0.0.1'']\<rparr>)"
    and d_down: "doh example_world ''unreachable.example.net'' = TransportError"
    and d_gw: "doh example_world ''gateway.example.net'' = Response 502 None"
    and d_sf: "doh example_world ''servfail.example.net''
                  = Response 200 (Some \<lparr>Status = 2, Answer = None\<rparr>)"
    and d_empty: "doh example_world ''empty.example.net''
                  = Response 200 (Some \<lparr>Status = 0, Answer = Some []\<rparr>)"
    and d_alias: "doh example_world ''alias.example.net''
        = Response 200 (Some \<lparr>Status = 0, Answer = Some [''home.example.net.'', ''10.0.0.1'']\<rparr>)"
    by (simp_all add: example_world_def example_doh_def answer_def)
  have home: "fst (look_up_ip_addr ''home.example.net'' example_world) = Inr 167772161"
    using resolver_contract [where h = "''home.example.net''" and w = example_world
                               and ip = 167772161] d_home parse_home
    by simp
  have down: "fst (look_up_ip_addr ''unreachable.example.net'' example_world)
                = Inl RequestException"
    using resolver_contract [where h = "''unreachable.example.net''" and w = example_world] d_down
    by blast
  have gw: "fst (look_up_ip_addr ''gateway.example.net'' example_world) = Inl (HTTPError 502)"
    using resolver_contract [where h = "''gateway.example.net''" and w = example_world] d_gw
    by simp
  have sf: "fst (look_up_ip_addr ''servfail.example.net'' example_world) = Inl (RuntimeError 2)"
    using resolver_contract [where h = "''servfail.example.net''" and w = example_world] d_sf
    by simp
  have empty: "fst (look_up_ip_addr ''empty.example.net'' example_world) = Inl IndexError"
    using resolver_contract [where h = "''empty.example.net''" and w = example_world] d_empty
    by simp
  have first_is_alias: "fst (look_up_ip_addr ''alias.example.net'' example_world) = Inl AddressValueError"
    using resolver_contract [where h = "''alias.example.net''" and w = example_world]
      d_alias parse_alias
    by simp
  have abort1: "main (example_args\<lparr>local_hostname := ''servfail.example.net''\<rparr>) example_world
       = (Inl (RuntimeError 2),
          example_world\<lparr>trace := trace example_world @ [DohQuery ''servfail.example.net'']\<rparr>)"
    using resolver_contract [where w = example_world
        and args = "example_args\<lparr>local_hostname := ''servfail.example.net''\<rparr>"] sf
    by simp
  have abort2: "main (example_args\<lparr>remote_hostname := ''empty.example.net''\<rparr>) example_world
       = (Inl IndexError,
          example_world\<lparr>trace := trace example_world
                                    @ [DohQuery ''home.example.net'',
                                       DohQuery ''empty.example.net'']\<rparr>)"
    using resolver_contract [where w = example_world
        and args = "example_args\<lparr>remote_hostname := ''empty.example.net''\<rparr>"] home empty
    by (simp add: example_args_def)
  from home down gw sf empty first_is_alias abort1 abort2 d_down d_gw d_sf d_empty d_alias parse_alias
  show ?thesis by (intro conjI)
qed

section \<open>Determinism\<close>

text \<open>
  Claim C10. Two runs with the same command line, in two worlds whose external
  collaborators answer alike (the same DoH reply for the local and for the remote hostname,
  the same exit status for every command after the same history, the same content and
  permission of the state file of this tunnel, the same history so far), end with the same
  result, have issued the same sequence of events, the commands among them, and leave the
  same content in the state file. The worlds may differ in everything else.
\<close>

theorem deterministic_run:
  assumes "doh w1 (local_hostname args) = doh w2 (local_hostname args)"
    and "doh w1 (remote_hostname args) = doh w2 (remote_hostname args)"
    and "returncode w1 = returncode w2"
    and "files w1 (state_path (tun_name args)) = files w2 (state_path (tun_name args))"
    and "writable w1 (state_path (tun_name args)) = writable w2 (state_path (tun_name args))"
    and "trace w1 = trace w2"
  shows "fst (main args w1) = fst (main args w2)
       \<and> trace (snd (main args w1)) = trace (snd (main args w2))
       \<and> files (snd (main args w1)) (state_path (tun_name args))
           = files (snd (main args w2)) (state_path (tun_name args))"
proof -
  from assms(3-6) have "agree (state_path (tun_name args)) w1 w2" by (simp add: agree_def)
  from main_agree [OF assms(1,2) this] show ?thesis by (simp add: agree_def)
qed

theorem deterministic_run_witness:
  "doh example_world (local_hostname example_args) = doh other_world (local_hostname example_args)
   \<and> doh example_world (remote_hostname example_args)
       = doh other_world (remote_hostname example_args)
   \<and> returncode example_world = returncode other_world
   \<and> files example_world (state_path (tun_name example_args))
       = files other_world (state_path (tun_name example_args))
   \<and> writable example_world (state_path (tun_name example_args))
       = writable other_world (state_path (tun_name example_args))
   \<and> trace example_world = trace other_world
   \<and> doh example_world \<noteq> doh other_world
   \<and> files example_world \<noteq> files other_world
   \<and> fst (main example_args example_world) = fst (main example_args other_world)
   \<and> trace (snd (main example_args example_world)) = trace (snd (main example_args other_world))
   \<and> files (snd (main example_args example_world)) (state_path (tun_name example_args))
       = files (snd (main example_args other_world)) (state_path (tun_name example_args))"
proof -
  have h1: "doh example_world (local_hostname example_args)
              = doh other_world (local_hostname example_args)"
    and h2: "doh example_world (remote_hostname example_args)
              = doh other_world (remote_hostname example_args)"
    and h3: "returncode example_world = returncode other_world"
    and h4: "files example_world (state_path (tun_name example_args))
              = files other_world (state_path (tun_name example_args))"
    and h5: "writable example_world (state_path (tun_name example_args))
              = writable other_world (state_path (tun_name example_args))"
    and h6: "trace example_world = trace other_world"
    by (simp_all add: other_world_def example_world_def example_args_def state_path_def)
  have "doh example_world ''elsewhere.example.net'' \<noteq> doh other_world ''elsewhere.example.net''"
    by (simp add: other_world_def example_world_def example_doh_def answer_def)
  then have d1: "doh example_world \<noteq> doh other_world" by metis
  have "files example_world ''/etc/hostname'' \<noteq> files other_world ''/etc/hostname''"
    by (simp add: other_world_def example_world_def)
  then have d2: "files example_world \<noteq> files other_world" by metis
  from deterministic_run [OF h1 h2 h3 h4 h5 h6] h1 h2 h3 h4 h5 h6 d1 d2
  show ?thesis by (intro conjI) simp_all
qed

section \<open>Save, then load\<close>

text \<open>
  Claim C1. The claim is that a record written by \<^verbatim>\<open>save_tunnel_addrs\<close> is read
  back by the drift check as the same two addresses. The code does not do that. For every
  pair of addresses and every tunnel name, the save succeeds and leaves the two dotted
  quads, each of which parses back to its address, on two lines; with the interface present
  the drift check reads the first line together with its newline
  (\<^verbatim>\<open>readline\<close> keeps it), which the strict parser rejects: the check raises
  \<^verbatim>\<open>AddressValueError\<close> instead of returning the addresses.
\<close>

theorem saved_record_fails_to_load:
  assumes "writable w (state_path tun)"
    and "returncode w (trace w @ [WriteFile (state_path tun) (record_text l r)]) (probe_cmd tun) = 0"
  shows "fst (save_tunnel_addrs l r tun w) = Inr ()
       \<and> files (snd (save_tunnel_addrs l r tun w)) (state_path tun) = Some (record_text l r)
       \<and> IPv4Address (str_ipv4 l) = Some l \<and> IPv4Address (str_ipv4 r) = Some r
       \<and> fst (readline (record_text l r)) = str_ipv4 l @ [newline]
       \<and> IPv4Address (fst (readline (record_text l r))) = None
       \<and> fst (needs_interface_recreation l r tun (snd (save_tunnel_addrs l r tun w)))
           = Inl AddressValueError"
proof -
  let ?w' = "w\<lparr>files := (files w)(state_path tun \<mapsto> record_text l r),
               trace := trace w @ [WriteFile (state_path tun) (record_text l r)]\<rparr>"
  have save: "save_tunnel_addrs l r tun w = (Inr (), ?w')"
    using assms(1) by (simp add: save_tunnel_addrs_def Let_def record_text_def)
  have "returncode ?w' (trace ?w') (probe_cmd tun) = 0" using assms(2) by simp
  from needs_present [OF this, of l r]
  have "fst (needs_interface_recreation l r tun ?w') = Inl AddressValueError" by simp
  with save saved_first_line [of l r] saved_first_line_text [of l r] show ?thesis
    by (simp add: IPv4Address_str_ipv4)
qed

theorem saved_record_fails_to_load_witness:
  "writable orphan_world (state_path ''autosit'')
   \<and> returncode orphan_world
        (trace orphan_world
           @ [WriteFile (state_path ''autosit'') (record_text 167772161 167772162)])
        (probe_cmd ''autosit'') = 0
   \<and> record_text 167772161 167772162 = ''10.0.0.1'' @ [newline] @ ''10.0.0.2''
   \<and> fst (save_tunnel_addrs 167772161 167772162 ''autosit'' orphan_world) = Inr ()
   \<and> files (snd (save_tunnel_addrs 167772161 167772162 ''autosit'' orphan_world))
        (state_path ''autosit'')
       = Some (record_text 167772161 167772162)
   \<and> IPv4Address (str_ipv4 167772161) = Some 167772161
   \<and> IPv4Address (str_ipv4 167772162) = Some 167772162
   \<and> fst (readline (record_text 167772161 167772162)) = str_ipv4 167772161 @ [newline]
   \<and> IPv4Address (fst (readline (record_text 167772161 167772162))) = None
   \<and> fst (needs_interface_recreation 167772161 167772162 ''autosit''
             (snd (save_tunnel_addrs 167772161 167772162 ''autosit'' orphan_world)))
       = Inl AddressValueError"
proof -
  have h1: "writable orphan_world (state_path ''autosit'')" by (rule orphan_facts)
  have h2: "returncode orphan_world
        (trace orphan_world
           @ [WriteFile (state_path ''autosit'') (record_text 167772161 167772162)])
        (probe_cmd ''autosit'') = 0" by (rule orphan_facts)
  have t: "record_text 167772161 167772162 = ''10.0.0.1'' @ [newline] @ ''10.0.0.2''"
    by (simp add: record_text_def str_home str_peer)
  from saved_record_fails_to_load [OF h1 h2] h1 h2 t show ?thesis by blast
qed


section \<open>The drift check with the interface present\<close>

text \<open>
  Claim C6. The claim is that the drift check answers in three steps: reconciliation when
  the interface is absent, reconciliation when the loaded record differs, healthy otherwise.
  The first step holds. The other two are never reached: when the probe finds the
  interface, the check raises \<^verbatim>\<open>FileNotFoundError\<close> (no state file) or
  \<^verbatim>\<open>AddressValueError\<close> (any state file, also one holding exactly the current
  addresses), and in no world at all does it return the answer healthy.
\<close>

theorem drift_check_raises_when_interface_exists:
  "(returncode w (trace w) (probe_cmd tun) = 0 \<longrightarrow>
      fst (needs_interface_recreation l r tun w)
        = Inl (if files w (state_path tun) = None then FileNotFoundError else AddressValueError))
   \<and> fst (needs_interface_recreation l r tun w) \<noteq> Inr False"
proof (cases "returncode w (trace w) (probe_cmd tun) = 0")
  case True
  from needs_present [OF True, of l r] True show ?thesis by simp
next
  case False
  from needs_absent [OF False, of l r] False show ?thesis by simp
qed

theorem drift_check_raises_when_interface_exists_witness:
  "returncode settled_world (trace settled_world) (probe_cmd ''autosit'') = 0
   \<and> files settled_world (state_path ''autosit'') = Some (record_text 167772161 167772162)
   \<and> fst (needs_interface_recreation 167772161 167772162 ''autosit'' settled_world)
       = Inl AddressValueError"
proof -
  have h: "returncode settled_world (trace settled_world) (probe_cmd ''autosit'') = 0"
    using settled_facts(3) [of "trace settled_world"] settled_up by (simp add: example_args_def)
  have f: "files settled_world (state_path ''autosit'') = Some (record_text 167772161 167772162)"
    using settled_facts(4) by (simp add: example_args_def)
  from drift_check_raises_when_interface_exists
         [of settled_world "''autosit''" 167772161 167772162] h f
  show ?thesis by simp
qed


section \<open>Running twice\<close>

text \<open>
  Claim C2. The claim is that a run which finds the interface and the record of the previous
  reconciliation matching the fresh addresses ends successfully as a no-op. The code ends
  such a run with \<^verbatim>\<open>AddressValueError\<close>: it queries both names, probes the
  interface, opens the state file and stops there. No command of the configurator is run,
  but the run does not decide healthy and does not terminate successfully. The example run
  followed by a second run in the world it leaves shows it.
\<close>

theorem second_run_raises:
  assumes "fst (look_up_ip_addr (local_hostname args) w) = Inr l"
    and "fst (look_up_ip_addr (remote_hostname args) w) = Inr r"
    and "returncode w (trace w @ [DohQuery (local_hostname args), DohQuery (remote_hostname args)])
           (probe_cmd (tun_name args)) = 0"
    and "files w (state_path (tun_name args)) = Some (record_text l r)"
  shows "main args w
           = (Inl AddressValueError,
              w\<lparr>trace := trace w @ [DohQuery (local_hostname args),
                                      DohQuery (remote_hostname args),
                                      Exec (probe_cmd (tun_name args)),
                                      ReadFile (state_path (tun_name args))]\<rparr>)"
  using main_present [OF assms(1-3)] assms(4) by simp

theorem second_run_raises_witness:
  "main example_args example_world = (Inr 0, settled_world)
   \<and> fst (look_up_ip_addr (local_hostname example_args) settled_world) = Inr 167772161
   \<and> fst (look_up_ip_addr (remote_hostname example_args) settled_world) = Inr 167772162
   \<and> returncode settled_world
        (trace settled_world @ [DohQuery (local_hostname example_args),
                                DohQuery (remote_hostname example_args)])
        (probe_cmd (tun_name example_args)) = 0
   \<and> files settled_world (state_path (tun_name example_args))
       = Some (record_text 167772161 167772162)
   \<and> main example_args settled_world
       = (Inl AddressValueError,
          settled_world\<lparr>trace := trace settled_world
                                    @ [DohQuery (local_hostname example_args),
                                       DohQuery (remote_hostname example_args),
                                       Exec (probe_cmd (tun_name example_args)),
                                       ReadFile (state_path (tun_name example_args))]\<rparr>)"
proof -
  have h3: "returncode settled_world
        (trace settled_world @ [DohQuery (local_hostname example_args),
                                DohQuery (remote_hostname example_args)])
        (probe_cmd (tun_name example_args)) = 0"
    using settled_up by (simp add: settled_facts(3))
  from second_run_raises [OF settled_facts(1) settled_facts(2) h3 settled_facts(4)]
    example_first_run settled_facts(1) settled_facts(2) h3 settled_facts(4)
  show ?thesis by (intro conjI)
qed


section \<open>Missing or corrupt state\<close>

text \<open>
  Claim C3, as stated, fails: with the interface present and no state file the drift check
  does not answer that reconciliation is required, it raises
  \<^verbatim>\<open>FileNotFoundError\<close>, and the run ends with that error.
\<close>

theorem missing_state_is_fatal_counterexample:
  "returncode orphan_world
     (trace orphan_world @ [DohQuery ''home.example.net'', DohQuery ''peer.example.net''])
     (probe_cmd ''autosit'') = 0
   \<and> files orphan_world (state_path ''autosit'') = None
   \<and> fst (needs_interface_recreation 167772161 167772162 ''autosit''
             (orphan_world\<lparr>trace := [DohQuery ''home.example.net'',
                                      DohQuery ''peer.example.net'']\<rparr>))
       = Inl FileNotFoundError
   \<and> main example_args orphan_world
       = (Inl FileNotFoundError,
          orphan_world\<lparr>trace := [DohQuery ''home.example.net'', DohQuery ''peer.example.net'',
                                   Exec (probe_cmd ''autosit''),
                                   ReadFile (state_path ''autosit'')]\<rparr>)"
proof -
  let ?w2 = "orphan_world\<lparr>trace := [DohQuery ''home.example.net'',
                                      DohQuery ''peer.example.net'']\<rparr>"
  have f: "files orphan_world (state_path ''autosit'') = None"
    using orphan_facts(4) by (simp add: example_args_def)
  have rc: "returncode ?w2 (trace ?w2) (probe_cmd ''autosit'') = 0"
    by (simp add: orphan_facts(3))
  have "files ?w2 (state_path ''autosit'') = None" using f by simp
  from needs_present_missing [OF rc this, of 167772161 167772162]
  have n: "fst (needs_interface_recreation 167772161 167772162 ''autosit'' ?w2)
             = Inl FileNotFoundError" by simp
  have rc': "returncode orphan_world
     (trace orphan_world @ [DohQuery (local_hostname example_args),
                            DohQuery (remote_hostname example_args)])
     (probe_cmd (tun_name example_args)) = 0" by (rule orphan_facts)
  from main_present [OF orphan_facts(1) orphan_facts(2) rc']
  have m: "main example_args orphan_world
       = (Inl FileNotFoundError,
          orphan_world\<lparr>trace := [DohQuery ''home.example.net'', DohQuery ''peer.example.net'',
                                   Exec (probe_cmd ''autosit''),
                                   ReadFile (state_path ''autosit'')]\<rparr>)"
    by (simp add: orphan_facts(4) orphan_facts(6)) (simp add: example_args_def)
  from f n m orphan_facts(3) show ?thesis by (intro conjI)
qed

text \<open>
  Claim C3, amended. For every run in which both names resolve and the interface exists,
  when the state file is missing or a line read from it does not parse as an IPv4 address,
  the drift check raises (\<^verbatim>\<open>FileNotFoundError\<close> for a missing file,
  \<^verbatim>\<open>AddressValueError\<close> otherwise) and the run ends with that error after the
  probe and the attempt to read: nothing is written and no mutating command is issued. Only
  the absence of the interface leads to reconciliation.
\<close>

theorem missing_or_corrupt_state_is_fatal:
  assumes "fst (look_up_ip_addr (local_hostname args) w) = Inr l"
    and "fst (look_up_ip_addr (remote_hostname args) w) = Inr r"
    and "returncode w (trace w @ [DohQuery (local_hostname args), DohQuery (remote_hostname args)])
           (probe_cmd (tun_name args)) = 0"
    and "files w (state_path (tun_name args)) = None
         \<or> (\<exists>contents. files w (state_path (tun_name args)) = Some contents
              \<and> (IPv4Address (fst (readline contents)) = None
                 \<or> IPv4Address (fst (readline (snd (readline contents)))) = None))"
  shows "main args w
           = (Inl (if files w (state_path (tun_name args)) = None then FileNotFoundError
                   else AddressValueError),
              w\<lparr>trace := trace w @ [DohQuery (local_hostname args),
                                      DohQuery (remote_hostname args),
                                      Exec (probe_cmd (tun_name args)),
                                      ReadFile (state_path (tun_name args))]\<rparr>)"
  by (rule main_present [OF assms(1-3)])

theorem missing_or_corrupt_state_is_fatal_witness:
  "(fst (look_up_ip_addr (local_hostname example_args) orphan_world) = Inr 167772161
    \<and> fst (look_up_ip_addr (remote_hostname example_args) orphan_world) = Inr 167772162
    \<and> returncode orphan_world
         (trace orphan_world @ [DohQuery (local_hostname example_args),
                                DohQuery (remote_hostname example_args)])
         (probe_cmd (tun_name example_args)) = 0
    \<and> files orphan_world (state_path (tun_name example_args)) = None
    \<and> main example_args orphan_world
        = (Inl FileNotFoundError,
           orphan_world\<lparr>trace := trace orphan_world
                                    @ [DohQuery (local_hostname example_args),
                                       DohQuery (remote_hostname example_args),
                                       Exec (probe_cmd (tun_name example_args)),
                                       ReadFile (state_path (tun_name example_args))]\<rparr>))
   \<and> (fst (look_up_ip_addr (local_hostname example_args) garbled_world) = Inr 167772161
    \<and> fst (look_up_ip_addr (remote_hostname example_args) garbled_world) = Inr 167772162
    \<and> returncode garbled_world
         (trace garbled_world @ [DohQuery (local_hostname example_args),
                                 DohQuery (remote_hostname example_args)])
         (probe_cmd (tun_name example_args)) = 0
    \<and> files garbled_world (state_path (tun_name example_args)) = Some ''not a record''
    \<and> IPv4Address (fst (readline ''not a record'')) = None
    \<and> main example_args garbled_world
        = (Inl AddressValueError,
           garbled_world\<lparr>trace := trace garbled_world
                                    @ [DohQuery (local_hostname example_args),
                                       DohQuery (remote_hostname example_args),
                                       Exec (probe_cmd (tun_name example_args)),
                                       ReadFile (state_path (tun_name example_args))]\<rparr>))"
proof -
  have o3: "returncode orphan_world
         (trace orphan_world @ [DohQuery (local_hostname example_args),
                                DohQuery (remote_hostname example_args)])
         (probe_cmd (tun_name example_args)) = 0" by (rule orphan_facts)
  have o4: "files orphan_world (state_path (tun_name example_args)) = None
         \<or> (\<exists>contents. files orphan_world (state_path (tun_name example_args)) = Some contents
              \<and> (IPv4Address (fst (readline contents)) = None
                 \<or> IPv4Address (fst (readline (snd (readline contents)))) = None))"
    using orphan_facts(4) by simp
  have g3: "returncode garbled_world
         (trace garbled_world @ [DohQuery (local_hostname example_args),
                                 DohQuery (remote_hostname example_args)])
         (probe_cmd (tun_name example_args)) = 0" by (rule garbled_facts)
  have g4: "files garbled_world (state_path (tun_name example_args)) = None
         \<or> (\<exists>contents. files garbled_world (state_path (tun_name example_args)) = Some contents
              \<and> (IPv4Address (fst (readline contents)) = None
                 \<or> IPv4Address (fst (readline (snd (readline contents)))) = None))"
    using garbled_facts(4) parse_garbled by simp
  have a: "main example_args orphan_world
        = (Inl FileNotFoundError,
           orphan_world\<lparr>trace := trace orphan_world
                                    @ [DohQuery (local_hostname example_args),
                                       DohQuery (remote_hostname example_args),
                                       Exec (probe_cmd (tun_name example_args)),
                                       ReadFile (state_path (tun_name example_args))]\<rparr>)"
    using missing_or_corrupt_state_is_fatal [OF orphan_facts(1) orphan_facts(2) o3 o4]
    by (simp add: orphan_facts(4))
  have b: "main example_args garbled_world
        = (Inl AddressValueError,
           garbled_world\<lparr>trace := trace garbled_world
                                    @ [DohQuery (local_hostname example_args),
                                       DohQuery (remote_hostname example_args),
                                       Exec (probe_cmd (tun_name example_args)),
                                       ReadFile (state_path (tun_name example_args))]\<rparr>)"
    using missing_or_corrupt_state_is_fatal [OF garbled_facts(1) garbled_facts(2) g3 g4]
    by (simp add: garbled_facts(4))
  from a b orphan_facts(1,2,4) o3 garbled_facts(1,2,4) g3 parse_garbled
  show ?thesis by (intro conjI)
qed


section \<open>Packet handling for IPv6\<close>

text \<open>
  Claim C4. The claim is that the mode \<^verbatim>\<open>forward\<close> for IPv6 installs
  IPv6-specific filter rules. In the code the IPv4 half holds, and the IPv6 toggle is set,
  but the two accept rules of the IPv6 branch are installed with \<^verbatim>\<open>iptables\<close>,
  the IPv4 tool, as in the IPv4 branch: a reconciliation that runs to its end with the IPv6
  mode \<^verbatim>\<open>forward\<close> ends with the IPv6 toggle followed by two
  \<^verbatim>\<open>iptables\<close> rules, and no \<^verbatim>\<open>ip6tables\<close> command is issued in
  the whole run.
\<close>

theorem ipv6_forward_installs_ipv4_rules:
  assumes "look_up_ip_addr (local_hostname args) w = (Inr l, w1)"
    and "look_up_ip_addr (remote_hostname args) w1 = (Inr r, w2)"
    and "needs_interface_recreation l r (tun_name args) w2 = (Inr True, w3)"
    and mode: "ipv6_mode args = ''forward''"
    and ok: "fst (main args w) = Inr 0"
  shows "\<exists>events before.
           trace (snd (main args w)) = trace w @ events
         \<and> events = before
             @ [Exec [''sysctl'', ''-w'', ''net.ipv6.conf.all.forwarding=1''],
                Exec [''iptables'', ''-A'', ''FORWARD'', ''-i'', tun_name args, ''-j'', ''ACCEPT''],
                Exec [''iptables'', ''-A'', ''FORWARD'', ''-o'', tun_name args, ''-j'', ''ACCEPT'']]
         \<and> \<not> list_ex (\<lambda>e. case e of Exec argv \<Rightarrow> hd argv = ''ip6tables'' | _ \<Rightarrow> False) events"
proof -
  have w3: "w3 = w\<lparr>trace := trace w @ [DohQuery (local_hostname args),
                 DohQuery (remote_hostname args), Exec (probe_cmd (tun_name args))]\<rparr>"
    by (rule decided_events [OF assms(1-3)])
  have wr: "writable w (state_path (tun_name args))"
  proof (rule ccontr)
    assume "\<not> writable w (state_path (tun_name args))"
    then have "\<not> writable w3 (state_path (tun_name args))" using w3 by simp
    then have "fst (main args w) = Inl PermissionError"
      by (simp add: main_decided [OF assms(1-3)] reconcile_not_writable)
    with ok show False by simp
  qed
  let ?base = "trace w3 @ [WriteFile (state_path (tun_name args)) (record_text l r),
                           Exec (teardown_cmd (tun_name args))]"
  from main_reconcile_cases [OF assms(1-3) wr refl] ok
  have tr: "trace (snd (main args w)) = ?base @ map Exec (checked_cmds args l r)"
    by auto
  let ?six = "[Exec [''sysctl'', ''-w'', ''net.ipv6.conf.all.forwarding=1''],
                Exec [''iptables'', ''-A'', ''FORWARD'', ''-i'', tun_name args, ''-j'', ''ACCEPT''],
                Exec [''iptables'', ''-A'', ''FORWARD'', ''-o'', tun_name args, ''-j'', ''ACCEPT'']]"
  let ?head = "[create_cmd (tun_name args) l r, up_cmd (tun_name args)]
     @ addr_route_cmds args @ ipv4_policy_cmds (ipv4_mode args) (tun_name args)"
  let ?before = "[DohQuery (local_hostname args), DohQuery (remote_hostname args),
                  Exec (probe_cmd (tun_name args)),
                  WriteFile (state_path (tun_name args)) (record_text l r),
                  Exec (teardown_cmd (tun_name args))] @ map Exec ?head"
  have split: "map Exec (checked_cmds args l r) = map Exec ?head @ ?six"
    using mode by (simp add: checked_cmds_def ipv6_policy_cmds_def)
  have t: "trace (snd (main args w)) = trace w @ (?before @ ?six)"
    using tr split w3 by simp
  have none: "\<not> list_ex (\<lambda>e. case e of Exec argv \<Rightarrow> hd argv = ''ip6tables'' | _ \<Rightarrow> False)
                  (?before @ ?six)"
  proof -
    have "\<not> list_ex (\<lambda>e. case e of Exec argv \<Rightarrow> hd argv = ''ip6tables'' | _ \<Rightarrow> False)
              (map Exec (checked_cmds args l r))"
      using checked_cmds_no_ip6tables [OF mode, of _ l r]
      by (auto simp: list_ex_iff)
    then have "\<not> list_ex (\<lambda>e. case e of Exec argv \<Rightarrow> hd argv = ''ip6tables'' | _ \<Rightarrow> False)
              (map Exec ?head @ ?six)"
      unfolding split .
    then show ?thesis by (simp add: probe_cmd_def teardown_cmd_def)
  qed
  from t none show ?thesis by blast
qed

theorem ipv6_forward_installs_ipv4_rules_witness:
  "look_up_ip_addr (local_hostname example_args) example_world
     = (Inr 167772161, example_world_1)
   \<and> look_up_ip_addr (remote_hostname example_args) example_world_1
     = (Inr 167772162, example_world_2)
   \<and> needs_interface_recreation 167772161 167772162 (tun_name example_args) example_world_2
     = (Inr True, example_world_3)
   \<and> ipv6_mode example_args = ''forward''
   \<and> fst (main example_args example_world) = Inr 0
   \<and> (\<exists>events before.
           trace (snd (main example_args example_world)) = trace example_world @ events
         \<and> events = before
             @ [Exec [''sysctl'', ''-w'', ''net.ipv6.conf.all.forwarding=1''],
                Exec [''iptables'', ''-A'', ''FORWARD'', ''-i'', tun_name example_args,
                      ''-j'', ''ACCEPT''],
                Exec [''iptables'', ''-A'', ''FORWARD'', ''-o'', tun_name example_args,
                      ''-j'', ''ACCEPT'']]
         \<and> \<not> list_ex (\<lambda>e. case e of Exec argv \<Rightarrow> hd argv = ''ip6tables'' | _ \<Rightarrow> False)
                events)"
proof -
  have mode: "ipv6_mode example_args = ''forward''" by (simp add: example_args_def)
  have ok: "fst (main example_args example_world) = Inr 0" by (simp add: example_first_run)
  from ipv6_forward_installs_ipv4_rules [OF example_step_1 example_step_2 example_step_3 mode ok]
    example_step_1 example_step_2 example_step_3 mode ok
  show ?thesis by (intro conjI)
qed

end
